theory Spec2Isabelle
  imports Complex_Main
begin

section \<open>Marching Cubes isosurface extraction (piston/marching_cube.h)\<close>

text \<open>
  A shallow embedding of the class \<open>marching_cube\<close>: the two static lookup tables, the
  functors \<open>classify_cell\<close>, \<open>is_valid_cell\<close> and \<open>isosurface_functor\<close>, and the extraction
  \<open>operator()\<close> that sequences them through the scan and search primitives.

  A C++ \<open>int\<close> is 32 bits wide: the sums, differences and products that the source
  computes on the dimensions, the cell and point indices and the output offsets wrap
  around in two's complement. \<open>float\<close> samples and coordinates are modelled as reals,
  containers as lists, and an integer division that is undefined, \<open>back()\<close> of an empty
  vector and an access outside a container as error values.
\<close>

subsection \<open>The case tables\<close>

text \<open>\<open>triTable_array[256][16]\<close>, with the macro \<open>X\<close> expanded to \<open>-1\<close>.\<close>

definition triTable_array :: "int list list" where
  "triTable_array = [
     [-1, -1, -1, -1, -1, -1, -1, -1, -1, -1, -1, -1, -1, -1, -1, -1],
     [0, 8, 3, -1, -1, -1, -1, -1, -1, -1, -1, -1, -1, -1, -1, -1],
     [0, 1, 9, -1, -1, -1, -1, -1, -1, -1, -1, -1, -1, -1, -1, -1],
     [1, 8, 3, 9, 8, 1, -1, -1, -1, -1, -1, -1, -1, -1, -1, -1],
     [1, 2, 10, -1, -1, -1, -1, -1, -1, -1, -1, -1, -1, -1, -1, -1],
     [0, 8, 3, 1, 2, 10, -1, -1, -1, -1, -1, -1, -1, -1, -1, -1],
     [9, 2, 10, 0, 2, 9, -1, -1, -1, -1, -1, -1, -1, -1, -1, -1],
     [2, 8, 3, 2, 10, 8, 10, 9, 8, -1, -1, -1, -1, -1, -1, -1],
     [3, 11, 2, -1, -1, -1, -1, -1, -1, -1, -1, -1, -1, -1, -1, -1],
     [0, 11, 2, 8, 11, 0, -1, -1, -1, -1, -1, -1, -1, -1, -1, -1],
     [1, 9, 0, 2, 3, 11, -1, -1, -1, -1, -1, -1, -1, -1, -1, -1],
     [1, 11, 2, 1, 9, 11, 9, 8, 11, -1, -1, -1, -1, -1, -1, -1],
     [3, 10, 1, 11, 10, 3, -1, -1, -1, -1, -1, -1, -1, -1, -1, -1],
     [0, 10, 1, 0, 8, 10, 8, 11, 10, -1, -1, -1, -1, -1, -1, -1],
     [3, 9, 0, 3, 11, 9, 11, 10, 9, -1, -1, -1, -1, -1, -1, -1],
     [9, 8, 10, 10, 8, 11, -1, -1, -1, -1, -1, -1, -1, -1, -1, -1],
     [4, 7, 8, -1, -1, -1, -1, -1, -1, -1, -1, -1, -1, -1, -1, -1],
     [4, 3, 0, 7, 3, 4, -1, -1, -1, -1, -1, -1, -1, -1, -1, -1],
     [0, 1, 9, 8, 4, 7, -1, -1, -1, -1, -1, -1, -1, -1, -1, -1],
     [4, 1, 9, 4, 7, 1, 7, 3, 1, -1, -1, -1, -1, -1, -1, -1],
     [1, 2, 10, 8, 4, 7, -1, -1, -1, -1, -1, -1, -1, -1, -1, -1],
     [3, 4, 7, 3, 0, 4, 1, 2, 10, -1, -1, -1, -1, -1, -1, -1],
     [9, 2, 10, 9, 0, 2, 8, 4, 7, -1, -1, -1, -1, -1, -1, -1],
     [2, 10, 9, 2, 9, 7, 2, 7, 3, 7, 9, 4, -1, -1, -1, -1],
     [8, 4, 7, 3, 11, 2, -1, -1, -1, -1, -1, -1, -1, -1, -1, -1],
     [11, 4, 7, 11, 2, 4, 2, 0, 4, -1, -1, -1, -1, -1, -1, -1],
     [9, 0, 1, 8, 4, 7, 2, 3, 11, -1, -1, -1, -1, -1, -1, -1],
     [4, 7, 11, 9, 4, 11, 9, 11, 2, 9, 2, 1, -1, -1, -1, -1],
     [3, 10, 1, 3, 11, 10, 7, 8, 4, -1, -1, -1, -1, -1, -1, -1],
     [1, 11, 10, 1, 4, 11, 1, 0, 4, 7, 11, 4, -1, -1, -1, -1],
     [4, 7, 8, 9, 0, 11, 9, 11, 10, 11, 0, 3, -1, -1, -1, -1],
     [4, 7, 11, 4, 11, 9, 9, 11, 10, -1, -1, -1, -1, -1, -1, -1],
     [9, 5, 4, -1, -1, -1, -1, -1, -1, -1, -1, -1, -1, -1, -1, -1],
     [9, 5, 4, 0, 8, 3, -1, -1, -1, -1, -1, -1, -1, -1, -1, -1],
     [0, 5, 4, 1, 5, 0, -1, -1, -1, -1, -1, -1, -1, -1, -1, -1],
     [8, 5, 4, 8, 3, 5, 3, 1, 5, -1, -1, -1, -1, -1, -1, -1],
     [1, 2, 10, 9, 5, 4, -1, -1, -1, -1, -1, -1, -1, -1, -1, -1],
     [3, 0, 8, 1, 2, 10, 4, 9, 5, -1, -1, -1, -1, -1, -1, -1],
     [5, 2, 10, 5, 4, 2, 4, 0, 2, -1, -1, -1, -1, -1, -1, -1],
     [2, 10, 5, 3, 2, 5, 3, 5, 4, 3, 4, 8, -1, -1, -1, -1],
     [9, 5, 4, 2, 3, 11, -1, -1, -1, -1, -1, -1, -1, -1, -1, -1],
     [0, 11, 2, 0, 8, 11, 4, 9, 5, -1, -1, -1, -1, -1, -1, -1],
     [0, 5, 4, 0, 1, 5, 2, 3, 11, -1, -1, -1, -1, -1, -1, -1],
     [2, 1, 5, 2, 5, 8, 2, 8, 11, 4, 8, 5, -1, -1, -1, -1],
     [10, 3, 11, 10, 1, 3, 9, 5, 4, -1, -1, -1, -1, -1, -1, -1],
     [4, 9, 5, 0, 8, 1, 8, 10, 1, 8, 11, 10, -1, -1, -1, -1],
     [5, 4, 0, 5, 0, 11, 5, 11, 10, 11, 0, 3, -1, -1, -1, -1],
     [5, 4, 8, 5, 8, 10, 10, 8, 11, -1, -1, -1, -1, -1, -1, -1],
     [9, 7, 8, 5, 7, 9, -1, -1, -1, -1, -1, -1, -1, -1, -1, -1],
     [9, 3, 0, 9, 5, 3, 5, 7, 3, -1, -1, -1, -1, -1, -1, -1],
     [0, 7, 8, 0, 1, 7, 1, 5, 7, -1, -1, -1, -1, -1, -1, -1],
     [1, 5, 3, 3, 5, 7, -1, -1, -1, -1, -1, -1, -1, -1, -1, -1],
     [9, 7, 8, 9, 5, 7, 10, 1, 2, -1, -1, -1, -1, -1, -1, -1],
     [10, 1, 2, 9, 5, 0, 5, 3, 0, 5, 7, 3, -1, -1, -1, -1],
     [8, 0, 2, 8, 2, 5, 8, 5, 7, 10, 5, 2, -1, -1, -1, -1],
     [2, 10, 5, 2, 5, 3, 3, 5, 7, -1, -1, -1, -1, -1, -1, -1],
     [7, 9, 5, 7, 8, 9, 3, 11, 2, -1, -1, -1, -1, -1, -1, -1],
     [9, 5, 7, 9, 7, 2, 9, 2, 0, 2, 7, 11, -1, -1, -1, -1],
     [2, 3, 11, 0, 1, 8, 1, 7, 8, 1, 5, 7, -1, -1, -1, -1],
     [11, 2, 1, 11, 1, 7, 7, 1, 5, -1, -1, -1, -1, -1, -1, -1],
     [9, 5, 8, 8, 5, 7, 10, 1, 3, 10, 3, 11, -1, -1, -1, -1],
     [5, 7, 0, 5, 0, 9, 7, 11, 0, 1, 0, 10, 11, 10, 0, -1],
     [11, 10, 0, 11, 0, 3, 10, 5, 0, 8, 0, 7, 5, 7, 0, -1],
     [11, 10, 5, 7, 11, 5, -1, -1, -1, -1, -1, -1, -1, -1, -1, -1],
     [10, 6, 5, -1, -1, -1, -1, -1, -1, -1, -1, -1, -1, -1, -1, -1],
     [0, 8, 3, 5, 10, 6, -1, -1, -1, -1, -1, -1, -1, -1, -1, -1],
     [9, 0, 1, 5, 10, 6, -1, -1, -1, -1, -1, -1, -1, -1, -1, -1],
     [1, 8, 3, 1, 9, 8, 5, 10, 6, -1, -1, -1, -1, -1, -1, -1],
     [1, 6, 5, 2, 6, 1, -1, -1, -1, -1, -1, -1, -1, -1, -1, -1],
     [1, 6, 5, 1, 2, 6, 3, 0, 8, -1, -1, -1, -1, -1, -1, -1],
     [9, 6, 5, 9, 0, 6, 0, 2, 6, -1, -1, -1, -1, -1, -1, -1],
     [5, 9, 8, 5, 8, 2, 5, 2, 6, 3, 2, 8, -1, -1, -1, -1],
     [2, 3, 11, 10, 6, 5, -1, -1, -1, -1, -1, -1, -1, -1, -1, -1],
     [11, 0, 8, 11, 2, 0, 10, 6, 5, -1, -1, -1, -1, -1, -1, -1],
     [0, 1, 9, 2, 3, 11, 5, 10, 6, -1, -1, -1, -1, -1, -1, -1],
     [5, 10, 6, 1, 9, 2, 9, 11, 2, 9, 8, 11, -1, -1, -1, -1],
     [6, 3, 11, 6, 5, 3, 5, 1, 3, -1, -1, -1, -1, -1, -1, -1],
     [0, 8, 11, 0, 11, 5, 0, 5, 1, 5, 11, 6, -1, -1, -1, -1],
     [3, 11, 6, 0, 3, 6, 0, 6, 5, 0, 5, 9, -1, -1, -1, -1],
     [6, 5, 9, 6, 9, 11, 11, 9, 8, -1, -1, -1, -1, -1, -1, -1],
     [5, 10, 6, 4, 7, 8, -1, -1, -1, -1, -1, -1, -1, -1, -1, -1],
     [4, 3, 0, 4, 7, 3, 6, 5, 10, -1, -1, -1, -1, -1, -1, -1],
     [1, 9, 0, 5, 10, 6, 8, 4, 7, -1, -1, -1, -1, -1, -1, -1],
     [10, 6, 5, 1, 9, 7, 1, 7, 3, 7, 9, 4, -1, -1, -1, -1],
     [6, 1, 2, 6, 5, 1, 4, 7, 8, -1, -1, -1, -1, -1, -1, -1],
     [1, 2, 5, 5, 2, 6, 3, 0, 4, 3, 4, 7, -1, -1, -1, -1],
     [8, 4, 7, 9, 0, 5, 0, 6, 5, 0, 2, 6, -1, -1, -1, -1],
     [7, 3, 9, 7, 9, 4, 3, 2, 9, 5, 9, 6, 2, 6, 9, -1],
     [3, 11, 2, 7, 8, 4, 10, 6, 5, -1, -1, -1, -1, -1, -1, -1],
     [5, 10, 6, 4, 7, 2, 4, 2, 0, 2, 7, 11, -1, -1, -1, -1],
     [0, 1, 9, 4, 7, 8, 2, 3, 11, 5, 10, 6, -1, -1, -1, -1],
     [9, 2, 1, 9, 11, 2, 9, 4, 11, 7, 11, 4, 5, 10, 6, -1],
     [8, 4, 7, 3, 11, 5, 3, 5, 1, 5, 11, 6, -1, -1, -1, -1],
     [5, 1, 11, 5, 11, 6, 1, 0, 11, 7, 11, 4, 0, 4, 11, -1],
     [0, 5, 9, 0, 6, 5, 0, 3, 6, 11, 6, 3, 8, 4, 7, -1],
     [6, 5, 9, 6, 9, 11, 4, 7, 9, 7, 11, 9, -1, -1, -1, -1],
     [10, 4, 9, 6, 4, 10, -1, -1, -1, -1, -1, -1, -1, -1, -1, -1],
     [4, 10, 6, 4, 9, 10, 0, 8, 3, -1, -1, -1, -1, -1, -1, -1],
     [10, 0, 1, 10, 6, 0, 6, 4, 0, -1, -1, -1, -1, -1, -1, -1],
     [8, 3, 1, 8, 1, 6, 8, 6, 4, 6, 1, 10, -1, -1, -1, -1],
     [1, 4, 9, 1, 2, 4, 2, 6, 4, -1, -1, -1, -1, -1, -1, -1],
     [3, 0, 8, 1, 2, 9, 2, 4, 9, 2, 6, 4, -1, -1, -1, -1],
     [0, 2, 4, 4, 2, 6, -1, -1, -1, -1, -1, -1, -1, -1, -1, -1],
     [8, 3, 2, 8, 2, 4, 4, 2, 6, -1, -1, -1, -1, -1, -1, -1],
     [10, 4, 9, 10, 6, 4, 11, 2, 3, -1, -1, -1, -1, -1, -1, -1],
     [0, 8, 2, 2, 8, 11, 4, 9, 10, 4, 10, 6, -1, -1, -1, -1],
     [3, 11, 2, 0, 1, 6, 0, 6, 4, 6, 1, 10, -1, -1, -1, -1],
     [6, 4, 1, 6, 1, 10, 4, 8, 1, 2, 1, 11, 8, 11, 1, -1],
     [9, 6, 4, 9, 3, 6, 9, 1, 3, 11, 6, 3, -1, -1, -1, -1],
     [8, 11, 1, 8, 1, 0, 11, 6, 1, 9, 1, 4, 6, 4, 1, -1],
     [3, 11, 6, 3, 6, 0, 0, 6, 4, -1, -1, -1, -1, -1, -1, -1],
     [6, 4, 8, 11, 6, 8, -1, -1, -1, -1, -1, -1, -1, -1, -1, -1],
     [7, 10, 6, 7, 8, 10, 8, 9, 10, -1, -1, -1, -1, -1, -1, -1],
     [0, 7, 3, 0, 10, 7, 0, 9, 10, 6, 7, 10, -1, -1, -1, -1],
     [10, 6, 7, 1, 10, 7, 1, 7, 8, 1, 8, 0, -1, -1, -1, -1],
     [10, 6, 7, 10, 7, 1, 1, 7, 3, -1, -1, -1, -1, -1, -1, -1],
     [1, 2, 6, 1, 6, 8, 1, 8, 9, 8, 6, 7, -1, -1, -1, -1],
     [2, 6, 9, 2, 9, 1, 6, 7, 9, 0, 9, 3, 7, 3, 9, -1],
     [7, 8, 0, 7, 0, 6, 6, 0, 2, -1, -1, -1, -1, -1, -1, -1],
     [7, 3, 2, 6, 7, 2, -1, -1, -1, -1, -1, -1, -1, -1, -1, -1],
     [2, 3, 11, 10, 6, 8, 10, 8, 9, 8, 6, 7, -1, -1, -1, -1],
     [2, 0, 7, 2, 7, 11, 0, 9, 7, 6, 7, 10, 9, 10, 7, -1],
     [1, 8, 0, 1, 7, 8, 1, 10, 7, 6, 7, 10, 2, 3, 11, -1],
     [11, 2, 1, 11, 1, 7, 10, 6, 1, 6, 7, 1, -1, -1, -1, -1],
     [8, 9, 6, 8, 6, 7, 9, 1, 6, 11, 6, 3, 1, 3, 6, -1],
     [0, 9, 1, 11, 6, 7, -1, -1, -1, -1, -1, -1, -1, -1, -1, -1],
     [7, 8, 0, 7, 0, 6, 3, 11, 0, 11, 6, 0, -1, -1, -1, -1],
     [7, 11, 6, -1, -1, -1, -1, -1, -1, -1, -1, -1, -1, -1, -1, -1],
     [7, 6, 11, -1, -1, -1, -1, -1, -1, -1, -1, -1, -1, -1, -1, -1],
     [3, 0, 8, 11, 7, 6, -1, -1, -1, -1, -1, -1, -1, -1, -1, -1],
     [0, 1, 9, 11, 7, 6, -1, -1, -1, -1, -1, -1, -1, -1, -1, -1],
     [8, 1, 9, 8, 3, 1, 11, 7, 6, -1, -1, -1, -1, -1, -1, -1],
     [10, 1, 2, 6, 11, 7, -1, -1, -1, -1, -1, -1, -1, -1, -1, -1],
     [1, 2, 10, 3, 0, 8, 6, 11, 7, -1, -1, -1, -1, -1, -1, -1],
     [2, 9, 0, 2, 10, 9, 6, 11, 7, -1, -1, -1, -1, -1, -1, -1],
     [6, 11, 7, 2, 10, 3, 10, 8, 3, 10, 9, 8, -1, -1, -1, -1],
     [7, 2, 3, 6, 2, 7, -1, -1, -1, -1, -1, -1, -1, -1, -1, -1],
     [7, 0, 8, 7, 6, 0, 6, 2, 0, -1, -1, -1, -1, -1, -1, -1],
     [2, 7, 6, 2, 3, 7, 0, 1, 9, -1, -1, -1, -1, -1, -1, -1],
     [1, 6, 2, 1, 8, 6, 1, 9, 8, 8, 7, 6, -1, -1, -1, -1],
     [10, 7, 6, 10, 1, 7, 1, 3, 7, -1, -1, -1, -1, -1, -1, -1],
     [10, 7, 6, 1, 7, 10, 1, 8, 7, 1, 0, 8, -1, -1, -1, -1],
     [0, 3, 7, 0, 7, 10, 0, 10, 9, 6, 10, 7, -1, -1, -1, -1],
     [7, 6, 10, 7, 10, 8, 8, 10, 9, -1, -1, -1, -1, -1, -1, -1],
     [6, 8, 4, 11, 8, 6, -1, -1, -1, -1, -1, -1, -1, -1, -1, -1],
     [3, 6, 11, 3, 0, 6, 0, 4, 6, -1, -1, -1, -1, -1, -1, -1],
     [8, 6, 11, 8, 4, 6, 9, 0, 1, -1, -1, -1, -1, -1, -1, -1],
     [9, 4, 6, 9, 6, 3, 9, 3, 1, 11, 3, 6, -1, -1, -1, -1],
     [6, 8, 4, 6, 11, 8, 2, 10, 1, -1, -1, -1, -1, -1, -1, -1],
     [1, 2, 10, 3, 0, 11, 0, 6, 11, 0, 4, 6, -1, -1, -1, -1],
     [4, 11, 8, 4, 6, 11, 0, 2, 9, 2, 10, 9, -1, -1, -1, -1],
     [10, 9, 3, 10, 3, 2, 9, 4, 3, 11, 3, 6, 4, 6, 3, -1],
     [8, 2, 3, 8, 4, 2, 4, 6, 2, -1, -1, -1, -1, -1, -1, -1],
     [0, 4, 2, 4, 6, 2, -1, -1, -1, -1, -1, -1, -1, -1, -1, -1],
     [1, 9, 0, 2, 3, 4, 2, 4, 6, 4, 3, 8, -1, -1, -1, -1],
     [1, 9, 4, 1, 4, 2, 2, 4, 6, -1, -1, -1, -1, -1, -1, -1],
     [8, 1, 3, 8, 6, 1, 8, 4, 6, 6, 10, 1, -1, -1, -1, -1],
     [10, 1, 0, 10, 0, 6, 6, 0, 4, -1, -1, -1, -1, -1, -1, -1],
     [4, 6, 3, 4, 3, 8, 6, 10, 3, 0, 3, 9, 10, 9, 3, -1],
     [10, 9, 4, 6, 10, 4, -1, -1, -1, -1, -1, -1, -1, -1, -1, -1],
     [4, 9, 5, 7, 6, 11, -1, -1, -1, -1, -1, -1, -1, -1, -1, -1],
     [0, 8, 3, 4, 9, 5, 11, 7, 6, -1, -1, -1, -1, -1, -1, -1],
     [5, 0, 1, 5, 4, 0, 7, 6, 11, -1, -1, -1, -1, -1, -1, -1],
     [11, 7, 6, 8, 3, 4, 3, 5, 4, 3, 1, 5, -1, -1, -1, -1],
     [9, 5, 4, 10, 1, 2, 7, 6, 11, -1, -1, -1, -1, -1, -1, -1],
     [6, 11, 7, 1, 2, 10, 0, 8, 3, 4, 9, 5, -1, -1, -1, -1],
     [7, 6, 11, 5, 4, 10, 4, 2, 10, 4, 0, 2, -1, -1, -1, -1],
     [3, 4, 8, 3, 5, 4, 3, 2, 5, 10, 5, 2, 11, 7, 6, -1],
     [7, 2, 3, 7, 6, 2, 5, 4, 9, -1, -1, -1, -1, -1, -1, -1],
     [9, 5, 4, 0, 8, 6, 0, 6, 2, 6, 8, 7, -1, -1, -1, -1],
     [3, 6, 2, 3, 7, 6, 1, 5, 0, 5, 4, 0, -1, -1, -1, -1],
     [6, 2, 8, 6, 8, 7, 2, 1, 8, 4, 8, 5, 1, 5, 8, -1],
     [9, 5, 4, 10, 1, 6, 1, 7, 6, 1, 3, 7, -1, -1, -1, -1],
     [1, 6, 10, 1, 7, 6, 1, 0, 7, 8, 7, 0, 9, 5, 4, -1],
     [4, 0, 10, 4, 10, 5, 0, 3, 10, 6, 10, 7, 3, 7, 10, -1],
     [7, 6, 10, 7, 10, 8, 5, 4, 10, 4, 8, 10, -1, -1, -1, -1],
     [6, 9, 5, 6, 11, 9, 11, 8, 9, -1, -1, -1, -1, -1, -1, -1],
     [3, 6, 11, 0, 6, 3, 0, 5, 6, 0, 9, 5, -1, -1, -1, -1],
     [0, 11, 8, 0, 5, 11, 0, 1, 5, 5, 6, 11, -1, -1, -1, -1],
     [6, 11, 3, 6, 3, 5, 5, 3, 1, -1, -1, -1, -1, -1, -1, -1],
     [1, 2, 10, 9, 5, 11, 9, 11, 8, 11, 5, 6, -1, -1, -1, -1],
     [0, 11, 3, 0, 6, 11, 0, 9, 6, 5, 6, 9, 1, 2, 10, -1],
     [11, 8, 5, 11, 5, 6, 8, 0, 5, 10, 5, 2, 0, 2, 5, -1],
     [6, 11, 3, 6, 3, 5, 2, 10, 3, 10, 5, 3, -1, -1, -1, -1],
     [5, 8, 9, 5, 2, 8, 5, 6, 2, 3, 8, 2, -1, -1, -1, -1],
     [9, 5, 6, 9, 6, 0, 0, 6, 2, -1, -1, -1, -1, -1, -1, -1],
     [1, 5, 8, 1, 8, 0, 5, 6, 8, 3, 8, 2, 6, 2, 8, -1],
     [1, 5, 6, 2, 1, 6, -1, -1, -1, -1, -1, -1, -1, -1, -1, -1],
     [1, 3, 6, 1, 6, 10, 3, 8, 6, 5, 6, 9, 8, 9, 6, -1],
     [10, 1, 0, 10, 0, 6, 9, 5, 0, 5, 6, 0, -1, -1, -1, -1],
     [0, 3, 8, 5, 6, 10, -1, -1, -1, -1, -1, -1, -1, -1, -1, -1],
     [10, 5, 6, -1, -1, -1, -1, -1, -1, -1, -1, -1, -1, -1, -1, -1],
     [11, 5, 10, 7, 5, 11, -1, -1, -1, -1, -1, -1, -1, -1, -1, -1],
     [11, 5, 10, 11, 7, 5, 8, 3, 0, -1, -1, -1, -1, -1, -1, -1],
     [5, 11, 7, 5, 10, 11, 1, 9, 0, -1, -1, -1, -1, -1, -1, -1],
     [10, 7, 5, 10, 11, 7, 9, 8, 1, 8, 3, 1, -1, -1, -1, -1],
     [11, 1, 2, 11, 7, 1, 7, 5, 1, -1, -1, -1, -1, -1, -1, -1],
     [0, 8, 3, 1, 2, 7, 1, 7, 5, 7, 2, 11, -1, -1, -1, -1],
     [9, 7, 5, 9, 2, 7, 9, 0, 2, 2, 11, 7, -1, -1, -1, -1],
     [7, 5, 2, 7, 2, 11, 5, 9, 2, 3, 2, 8, 9, 8, 2, -1],
     [2, 5, 10, 2, 3, 5, 3, 7, 5, -1, -1, -1, -1, -1, -1, -1],
     [8, 2, 0, 8, 5, 2, 8, 7, 5, 10, 2, 5, -1, -1, -1, -1],
     [9, 0, 1, 5, 10, 3, 5, 3, 7, 3, 10, 2, -1, -1, -1, -1],
     [9, 8, 2, 9, 2, 1, 8, 7, 2, 10, 2, 5, 7, 5, 2, -1],
     [1, 3, 5, 3, 7, 5, -1, -1, -1, -1, -1, -1, -1, -1, -1, -1],
     [0, 8, 7, 0, 7, 1, 1, 7, 5, -1, -1, -1, -1, -1, -1, -1],
     [9, 0, 3, 9, 3, 5, 5, 3, 7, -1, -1, -1, -1, -1, -1, -1],
     [9, 8, 7, 5, 9, 7, -1, -1, -1, -1, -1, -1, -1, -1, -1, -1],
     [5, 8, 4, 5, 10, 8, 10, 11, 8, -1, -1, -1, -1, -1, -1, -1],
     [5, 0, 4, 5, 11, 0, 5, 10, 11, 11, 3, 0, -1, -1, -1, -1],
     [0, 1, 9, 8, 4, 10, 8, 10, 11, 10, 4, 5, -1, -1, -1, -1],
     [10, 11, 4, 10, 4, 5, 11, 3, 4, 9, 4, 1, 3, 1, 4, -1],
     [2, 5, 1, 2, 8, 5, 2, 11, 8, 4, 5, 8, -1, -1, -1, -1],
     [0, 4, 11, 0, 11, 3, 4, 5, 11, 2, 11, 1, 5, 1, 11, -1],
     [0, 2, 5, 0, 5, 9, 2, 11, 5, 4, 5, 8, 11, 8, 5, -1],
     [9, 4, 5, 2, 11, 3, -1, -1, -1, -1, -1, -1, -1, -1, -1, -1],
     [2, 5, 10, 3, 5, 2, 3, 4, 5, 3, 8, 4, -1, -1, -1, -1],
     [5, 10, 2, 5, 2, 4, 4, 2, 0, -1, -1, -1, -1, -1, -1, -1],
     [3, 10, 2, 3, 5, 10, 3, 8, 5, 4, 5, 8, 0, 1, 9, -1],
     [5, 10, 2, 5, 2, 4, 1, 9, 2, 9, 4, 2, -1, -1, -1, -1],
     [8, 4, 5, 8, 5, 3, 3, 5, 1, -1, -1, -1, -1, -1, -1, -1],
     [0, 4, 5, 1, 0, 5, -1, -1, -1, -1, -1, -1, -1, -1, -1, -1],
     [8, 4, 5, 8, 5, 3, 9, 0, 5, 0, 3, 5, -1, -1, -1, -1],
     [9, 4, 5, -1, -1, -1, -1, -1, -1, -1, -1, -1, -1, -1, -1, -1],
     [4, 11, 7, 4, 9, 11, 9, 10, 11, -1, -1, -1, -1, -1, -1, -1],
     [0, 8, 3, 4, 9, 7, 9, 11, 7, 9, 10, 11, -1, -1, -1, -1],
     [1, 10, 11, 1, 11, 4, 1, 4, 0, 7, 4, 11, -1, -1, -1, -1],
     [3, 1, 4, 3, 4, 8, 1, 10, 4, 7, 4, 11, 10, 11, 4, -1],
     [4, 11, 7, 9, 11, 4, 9, 2, 11, 9, 1, 2, -1, -1, -1, -1],
     [9, 7, 4, 9, 11, 7, 9, 1, 11, 2, 11, 1, 0, 8, 3, -1],
     [11, 7, 4, 11, 4, 2, 2, 4, 0, -1, -1, -1, -1, -1, -1, -1],
     [11, 7, 4, 11, 4, 2, 8, 3, 4, 3, 2, 4, -1, -1, -1, -1],
     [2, 9, 10, 2, 7, 9, 2, 3, 7, 7, 4, 9, -1, -1, -1, -1],
     [9, 10, 7, 9, 7, 4, 10, 2, 7, 8, 7, 0, 2, 0, 7, -1],
     [3, 7, 10, 3, 10, 2, 7, 4, 10, 1, 10, 0, 4, 0, 10, -1],
     [1, 10, 2, 8, 7, 4, -1, -1, -1, -1, -1, -1, -1, -1, -1, -1],
     [4, 9, 1, 4, 1, 7, 7, 1, 3, -1, -1, -1, -1, -1, -1, -1],
     [4, 9, 1, 4, 1, 7, 0, 8, 1, 8, 7, 1, -1, -1, -1, -1],
     [4, 0, 3, 7, 4, 3, -1, -1, -1, -1, -1, -1, -1, -1, -1, -1],
     [4, 8, 7, -1, -1, -1, -1, -1, -1, -1, -1, -1, -1, -1, -1, -1],
     [9, 10, 8, 10, 11, 8, -1, -1, -1, -1, -1, -1, -1, -1, -1, -1],
     [3, 0, 9, 3, 9, 11, 11, 9, 10, -1, -1, -1, -1, -1, -1, -1],
     [0, 1, 10, 0, 10, 8, 8, 10, 11, -1, -1, -1, -1, -1, -1, -1],
     [3, 1, 10, 11, 3, 10, -1, -1, -1, -1, -1, -1, -1, -1, -1, -1],
     [1, 2, 11, 1, 11, 9, 9, 11, 8, -1, -1, -1, -1, -1, -1, -1],
     [3, 0, 9, 3, 9, 11, 1, 2, 9, 2, 11, 9, -1, -1, -1, -1],
     [0, 2, 11, 8, 0, 11, -1, -1, -1, -1, -1, -1, -1, -1, -1, -1],
     [3, 2, 11, -1, -1, -1, -1, -1, -1, -1, -1, -1, -1, -1, -1, -1],
     [2, 3, 8, 2, 8, 10, 10, 8, 9, -1, -1, -1, -1, -1, -1, -1],
     [9, 10, 2, 0, 9, 2, -1, -1, -1, -1, -1, -1, -1, -1, -1, -1],
     [2, 3, 8, 2, 8, 10, 0, 1, 8, 1, 10, 8, -1, -1, -1, -1],
     [1, 10, 2, -1, -1, -1, -1, -1, -1, -1, -1, -1, -1, -1, -1, -1],
     [1, 3, 8, 9, 1, 8, -1, -1, -1, -1, -1, -1, -1, -1, -1, -1],
     [0, 9, 1, -1, -1, -1, -1, -1, -1, -1, -1, -1, -1, -1, -1, -1],
     [0, 3, 8, -1, -1, -1, -1, -1, -1, -1, -1, -1, -1, -1, -1, -1],
     [-1, -1, -1, -1, -1, -1, -1, -1, -1, -1, -1, -1, -1, -1, -1, -1]]"

text \<open>\<open>numVerticesTable_array[256]\<close>.\<close>

definition numVerticesTable_array :: "int list" where
  "numVerticesTable_array = [
     0, 3, 3, 6, 3, 6, 6, 9, 3, 6, 6, 9, 6, 9, 9, 6,
     3, 6, 6, 9, 6, 9, 9, 12, 6, 9, 9, 12, 9, 12, 12, 9,
     3, 6, 6, 9, 6, 9, 9, 12, 6, 9, 9, 12, 9, 12, 12, 9,
     6, 9, 9, 6, 9, 12, 12, 9, 9, 12, 12, 9, 12, 15, 15, 6,
     3, 6, 6, 9, 6, 9, 9, 12, 6, 9, 9, 12, 9, 12, 12, 9,
     6, 9, 9, 12, 9, 12, 12, 15, 9, 12, 12, 15, 12, 15, 15, 12,
     6, 9, 9, 12, 9, 12, 6, 9, 9, 12, 12, 15, 12, 15, 9, 6,
     9, 12, 12, 9, 12, 15, 9, 6, 12, 15, 15, 12, 15, 6, 12, 3,
     3, 6, 6, 9, 6, 9, 9, 12, 6, 9, 9, 12, 9, 12, 12, 9,
     6, 9, 9, 12, 9, 12, 12, 15, 9, 6, 12, 9, 12, 9, 15, 6,
     6, 9, 9, 12, 9, 12, 12, 15, 9, 12, 12, 15, 12, 15, 15, 12,
     9, 12, 12, 9, 12, 15, 15, 12, 12, 9, 15, 6, 15, 12, 6, 3,
     6, 9, 9, 12, 9, 12, 12, 15, 9, 12, 12, 15, 6, 9, 9, 6,
     9, 12, 12, 15, 12, 15, 15, 6, 12, 9, 15, 12, 9, 6, 12, 3,
     9, 12, 12, 15, 12, 15, 9, 12, 12, 15, 15, 6, 9, 12, 6, 3,
     6, 9, 9, 6, 9, 12, 6, 3, 9, 6, 12, 3, 6, 3, 3, 0]"

definition verticesForEdge :: "int list" where
  "verticesForEdge = [0, 1, 1, 2, 3, 2, 0, 3,
                      4, 5, 5, 6, 7, 6, 4, 7,
                      0, 4, 1, 5, 2, 6, 3, 7]"

text \<open>
  The constructor copies both tables into the containers \<open>triTable\<close> (flattened to
  \<open>256*16\<close> entries) and \<open>numVertsTable\<close>; nothing writes to them afterwards.
\<close>

definition triTable :: "int list" where
  "triTable = concat triTable_array"

definition numVertsTable :: "int list" where
  "numVertsTable = numVerticesTable_array"

subsection \<open>32-bit integers\<close>

text \<open>
  The value that a 32-bit two's complement \<open>int\<close> holds for the mathematical result
  \<open>x\<close>, the arithmetic of \<open>int\<close> with this wrap-around, and the conversion to
  \<open>unsigned int\<close>.
\<close>

definition int32 :: "int \<Rightarrow> int" where
  "int32 x = (x + 2147483648) mod 4294967296 - 2147483648"

definition add32 :: "int \<Rightarrow> int \<Rightarrow> int" where
  "add32 a b = int32 (a + b)"

definition sub32 :: "int \<Rightarrow> int \<Rightarrow> int" where
  "sub32 a b = int32 (a - b)"

definition mul32 :: "int \<Rightarrow> int \<Rightarrow> int" where
  "mul32 a b = int32 (a * b)"

definition uint32 :: "int \<Rightarrow> int" where
  "uint32 x = x mod 4294967296"

subsection \<open>Undefined behaviour as error values\<close>

datatype error = Division_by_zero | Integer_overflow | Length_error | Back_of_empty | Out_of_bounds

definition and_then :: "error + 'a \<Rightarrow> ('a \<Rightarrow> error + 'b) \<Rightarrow> error + 'b" where
  "and_then m k = (case m of Inl e \<Rightarrow> Inl e | Inr x \<Rightarrow> k x)"

text \<open>
  C++ \<open>/\<close> and \<open>%\<close> on \<open>int\<close>: the quotient is truncated towards zero. It is undefined
  for the divisor 0, and for the least \<open>int\<close> divided by \<open>-1\<close>, whose quotient is not an
  \<open>int\<close>.
\<close>

definition c_div :: "int \<Rightarrow> int \<Rightarrow> error + int" where
  "c_div a b =
     (if b = 0 then Inl Division_by_zero
      else if a = - 2147483648 \<and> b = - 1 then Inl Integer_overflow
      else Inr (sgn a * sgn b * (\<bar>a\<bar> div \<bar>b\<bar>)))"

definition c_mod :: "int \<Rightarrow> int \<Rightarrow> error + int" where
  "c_mod a b =
     (if b = 0 then Inl Division_by_zero
      else if a = - 2147483648 \<and> b = - 1 then Inl Integer_overflow
      else Inr (a - b * (sgn a * sgn b * (\<bar>a\<bar> div \<bar>b\<bar>))))"

text \<open>Reading and writing one element of a container through an iterator or a raw pointer.\<close>

definition rd :: "'a list \<Rightarrow> int \<Rightarrow> error + 'a" where
  "rd xs i = (if 0 \<le> i \<and> i < int (length xs) then Inr (xs ! nat i) else Inl Out_of_bounds)"

definition store :: "'a list \<Rightarrow> int \<Rightarrow> 'a \<Rightarrow> error + 'a list" where
  "store xs i a = (if 0 \<le> i \<and> i < int (length xs) then Inr (xs[nat i := a]) else Inl Out_of_bounds)"

definition back_of :: "'a list \<Rightarrow> error + 'a" where
  "back_of xs = (if xs = [] then Inl Back_of_empty else Inr (last xs))"

definition resize :: "'a list \<Rightarrow> int \<Rightarrow> 'a \<Rightarrow> error + 'a list" where
  "resize xs n d =
     (if n < 0 then Inl Length_error else Inr (take (nat n) xs @ replicate (nat n - length xs) d))"

subsection \<open>The input field\<close>

type_synonym float3 = "real \<times> real \<times> real"
type_synonym float4 = "real \<times> real \<times> real \<times> real"

text \<open>
  Modelled from the spec: the input data set (\<open>piston/image3d.h\<close> is not among the
  sources). The extraction reads its three dimensions, its cell count \<open>NCells\<close>, its
  scalar accessor \<open>point_data_begin()\<close> and its physical coordinate accessor
  \<open>physical_coordinates_begin()\<close>, both indexed by the linear point index.
\<close>

record image3d =
  dim0 :: int
  dim1 :: int
  dim2 :: int
  NCells :: int
  point_data :: "int \<Rightarrow> real"
  physical_coordinates :: "int \<Rightarrow> float3"

text \<open>
  Modelled from the spec: the vector helpers of \<open>piston/piston_math.h\<close> (not among the
  sources): linear interpolation, and the normalised cross product of two vectors.
\<close>

definition lerp :: "float3 \<Rightarrow> float3 \<Rightarrow> real \<Rightarrow> float3" where
  "lerp a b t =
     (case a of (ax, ay, az) \<Rightarrow> case b of (bx, by, bz) \<Rightarrow>
        (ax + t * (bx - ax), ay + t * (by - ay), az + t * (bz - az)))"

definition make_float4 :: "float3 \<Rightarrow> real \<Rightarrow> float4" where
  "make_float4 a w = (case a of (x, y, z) \<Rightarrow> (x, y, z, w))"

definition make_float3 :: "float4 \<Rightarrow> float3" where
  "make_float3 a = (case a of (x, y, z, w) \<Rightarrow> (x, y, z))"

definition minus4 :: "float4 \<Rightarrow> float4 \<Rightarrow> float4" where
  "minus4 a b =
     (case a of (ax, ay, az, aw) \<Rightarrow> case b of (bx, by, bz, bw) \<Rightarrow>
        (ax - bx, ay - by, az - bz, aw - bw))"

definition cross :: "float3 \<Rightarrow> float3 \<Rightarrow> float3" where
  "cross a b =
     (case a of (ax, ay, az) \<Rightarrow> case b of (bx, by, bz) \<Rightarrow>
        (ay * bz - az * by, az * bx - ax * bz, ax * by - ay * bx))"

definition normalize :: "float3 \<Rightarrow> float3" where
  "normalize a =
     (case a of (x, y, z) \<Rightarrow>
        (let invLen = 1 / sqrt (x * x + y * y + z * z) in (x * invLen, y * invLen, z * invLen)))"

subsection \<open>\<open>classify_cell\<close>\<close>

text \<open>The conversion of a C++ \<open>bool\<close> to an integer.\<close>

definition b2i :: "bool \<Rightarrow> int" where
  "b2i b = (if b then 1 else 0)"

text \<open>
  The cell coordinates, computed by the same three lines in \<open>classify_cell\<close> and in
  \<open>isosurface_functor\<close>.
\<close>

definition cell_xyz :: "int \<Rightarrow> int \<Rightarrow> int \<Rightarrow> int \<Rightarrow> error + (int \<times> int \<times> int)" where
  "cell_xyz xdim ydim cells_per_layer cell_id =
     and_then (c_mod cell_id (sub32 xdim 1)) (\<lambda>x.
     and_then (c_div cell_id (sub32 xdim 1)) (\<lambda>q.
     and_then (c_mod q (sub32 ydim 1)) (\<lambda>y.
     and_then (c_div cell_id cells_per_layer) (\<lambda>z.
     Inr (x, y, z)))))"

definition classify_cell ::
  "image3d \<Rightarrow> real \<Rightarrow> bool \<Rightarrow> int list \<Rightarrow> int \<Rightarrow> error + (int \<times> int)" where
  "classify_cell input isovalue discardMinVals numVertsTable' cell_id =
     (let xdim = dim0 input; ydim = dim1 input;
          cells_per_layer = mul32 (sub32 xdim 1) (sub32 ydim 1);
          points_per_layer = mul32 xdim ydim
      in and_then (cell_xyz xdim ydim cells_per_layer cell_id) (\<lambda>(x, y, z).
         let i0 = add32 (add32 x (mul32 y xdim)) (mul32 z points_per_layer);
             i1 = add32 i0 1;
             i2 = add32 (add32 i0 1) xdim;
             i3 = add32 i0 xdim;
             i4 = add32 i0 points_per_layer;
             i5 = add32 i1 points_per_layer;
             i6 = add32 i2 points_per_layer;
             i7 = add32 i3 points_per_layer;
             f0 = point_data input i0;
             f1 = point_data input i1;
             f2 = point_data input i2;
             f3 = point_data input i3;
             f4 = point_data input i4;
             f5 = point_data input i5;
             f6 = point_data input i6;
             f7 = point_data input i7;
             cubeindex = b2i (f0 > isovalue)
                       + b2i (f1 > isovalue) * 2
                       + b2i (f2 > isovalue) * 4
                       + b2i (f3 > isovalue) * 8
                       + b2i (f4 > isovalue) * 16
                       + b2i (f5 > isovalue) * 32
                       + b2i (f6 > isovalue) * 64
                       + b2i (f7 > isovalue) * 128
         in and_then (rd numVertsTable' cubeindex) (\<lambda>n. Inr (cubeindex, n))))"

definition is_valid_cell :: "int \<Rightarrow> bool" where
  "is_valid_cell numVertices = (numVertices \<noteq> 0)"

subsection \<open>The bulk primitives\<close>

text \<open>
  The extraction is written with the primitives of the Thrust library, modelled by
  their documented sequential meaning: \<open>transform\<close> applies a functor to every element
  of a range (and fails where the functor does), the scans accumulate from left to right,
  \<open>upper_bound\<close> returns the position of the first element greater than the searched
  value, \<open>for_each\<close> applies a functor with side effects to every element in turn.
  The inclusive scan adds up indicators 0 and 1, so its sums stay below the length of the
  array; the exclusive scan adds up vertex counts in \<open>int\<close>, with wrap-around.
\<close>

fun transform :: "('a \<Rightarrow> error + 'b) \<Rightarrow> 'a list \<Rightarrow> error + 'b list" where
  "transform f [] = Inr []"
| "transform f (x # xs) =
     and_then (f x) (\<lambda>y. and_then (transform f xs) (\<lambda>ys. Inr (y # ys)))"

definition CountingIterator :: "int \<Rightarrow> int list" where
  "CountingIterator n = map int [0..<nat n]"

fun inclusive_scan_from :: "int \<Rightarrow> int list \<Rightarrow> int list" where
  "inclusive_scan_from acc [] = []"
| "inclusive_scan_from acc (x # xs) = (acc + x) # inclusive_scan_from (acc + x) xs"

definition transform_inclusive_scan :: "('a \<Rightarrow> bool) \<Rightarrow> 'a list \<Rightarrow> int list" where
  "transform_inclusive_scan unary_op xs = inclusive_scan_from 0 (map (\<lambda>x. b2i (unary_op x)) xs)"

fun exclusive_scan_from :: "int \<Rightarrow> int list \<Rightarrow> int list" where
  "exclusive_scan_from acc [] = []"
| "exclusive_scan_from acc (x # xs) = acc # exclusive_scan_from (add32 acc x) xs"

definition exclusive_scan :: "int list \<Rightarrow> int list" where
  "exclusive_scan xs = exclusive_scan_from 0 xs"

fun upper_bound :: "int list \<Rightarrow> int \<Rightarrow> int" where
  "upper_bound [] val = 0"
| "upper_bound (x # xs) val = (if val < x then 0 else 1 + upper_bound xs val)"

definition make_permutation_iterator :: "'a list \<Rightarrow> int list \<Rightarrow> error + 'a list" where
  "make_permutation_iterator elements indices = transform (rd elements) indices"

fun for_each :: "('a \<Rightarrow> 's \<Rightarrow> error + 's) \<Rightarrow> 'a list \<Rightarrow> 's \<Rightarrow> error + 's" where
  "for_each f [] s = Inr s"
| "for_each f (x # xs) s = and_then (f x s) (for_each f xs)"

fun zip4 :: "'a list \<Rightarrow> 'b list \<Rightarrow> 'c list \<Rightarrow> 'd list \<Rightarrow> ('a \<times> 'b \<times> 'c \<times> 'd) list" where
  "zip4 as bs cs ds = zip as (zip bs (zip cs ds))"

subsection \<open>\<open>isosurface_functor\<close>\<close>

text \<open>The two corners of the edge that output vertex \<open>v\<close> of a cell lies on.\<close>

definition edge_corners :: "int list \<Rightarrow> int \<Rightarrow> int \<Rightarrow> error + (int \<times> int)" where
  "edge_corners triangle_table cubeindex v =
     and_then (rd triangle_table (add32 (mul32 cubeindex 16) v)) (\<lambda>edge.
     and_then (rd verticesForEdge (mul32 2 edge)) (\<lambda>v0.
     and_then (rd verticesForEdge (add32 (mul32 2 edge) 1)) (\<lambda>v1.
     Inr (v0, v1))))"

text \<open>The interpolation factor \<open>t\<close> of an edge between the corners \<open>v0\<close> and \<open>v1\<close>.\<close>

definition interp_factor :: "real \<Rightarrow> real list \<Rightarrow> int \<Rightarrow> int \<Rightarrow> error + real" where
  "interp_factor isovalue f v0 v1 =
     and_then (rd f v0) (\<lambda>f0.
     and_then (rd f v1) (\<lambda>f1.
     Inr ((isovalue - f0) / (f1 - f0))))"

text \<open>The body of the interpolation loop up to the value it writes.\<close>

definition interp_vertex ::
  "int list \<Rightarrow> real \<Rightarrow> real list \<Rightarrow> float3 list \<Rightarrow> int \<Rightarrow> int \<Rightarrow> error + float4" where
  "interp_vertex triangle_table isovalue f p cubeindex v =
     and_then (edge_corners triangle_table cubeindex v) (\<lambda>(v0, v1).
     and_then (interp_factor isovalue f v0 v1) (\<lambda>t.
     and_then (rd p v0) (\<lambda>p0.
     and_then (rd p v1) (\<lambda>p1.
     Inr (make_float4 (lerp p0 p1 t) 1)))))"

text \<open>
  The two loops. Their counter stays below \<open>numVertices\<close>, an \<open>int\<close> that the extraction
  takes from the vertex count table, so \<open>v++\<close> and \<open>v += 3\<close> are plain additions; the
  offsets \<open>outputVertId + v\<close> are added to a pointer, not in \<open>int\<close>.
\<close>

function interp_loop ::
  "int list \<Rightarrow> real \<Rightarrow> real list \<Rightarrow> float3 list \<Rightarrow> int \<Rightarrow> int \<Rightarrow> int \<Rightarrow> int \<Rightarrow>
   float4 list \<Rightarrow> error + float4 list" where
  "interp_loop triangle_table isovalue f p cubeindex outputVertId numVertices v vertices_output =
     (if v < numVertices then
        and_then (interp_vertex triangle_table isovalue f p cubeindex v) (\<lambda>vertex.
        and_then (store vertices_output (outputVertId + v) vertex)
          (interp_loop triangle_table isovalue f p cubeindex outputVertId numVertices (v + 1)))
      else Inr vertices_output)"
  by pat_completeness auto
termination
  by (relation "measure (\<lambda>(tt, iso, f, p, c, out, n, v, vs). nat (n - v))") auto

function normal_loop ::
  "int \<Rightarrow> int \<Rightarrow> int \<Rightarrow> float4 list \<Rightarrow> float3 list \<Rightarrow> error + float3 list" where
  "normal_loop outputVertId numVertices v vertices_output normals_output =
     (if v < numVertices then
        and_then (rd vertices_output (outputVertId + v)) (\<lambda>vertex0.
        and_then (rd vertices_output (outputVertId + v + 1)) (\<lambda>vertex1.
        and_then (rd vertices_output (outputVertId + v + 2)) (\<lambda>vertex2.
        let edge0 = make_float3 (minus4 vertex1 vertex0);
            edge1 = make_float3 (minus4 vertex2 vertex0);
            normal = normalize (cross edge0 edge1)
        in and_then (store normals_output (outputVertId + v + 2) normal) (\<lambda>n2.
           and_then (store n2 (outputVertId + v + 1) normal) (\<lambda>n1.
           and_then (store n1 (outputVertId + v) normal)
             (normal_loop outputVertId numVertices (v + 3) vertices_output))))))
      else Inr normals_output)"
  by pat_completeness auto
termination
  by (relation "measure (\<lambda>(out, n, v, vs, ns). nat (n - v))") auto

definition corner_indices :: "int \<Rightarrow> int \<Rightarrow> int \<Rightarrow> int \<Rightarrow> int \<Rightarrow> int list" where
  "corner_indices xdim ydim x y z =
     (let i0 = add32 (add32 x (mul32 y xdim)) (mul32 (mul32 z xdim) ydim);
          i1 = add32 i0 1;
          i2 = add32 (add32 i0 1) xdim;
          i3 = add32 i0 xdim;
          i4 = add32 i0 (mul32 xdim ydim);
          i5 = add32 i1 (mul32 xdim ydim);
          i6 = add32 i2 (mul32 xdim ydim);
          i7 = add32 i3 (mul32 xdim ydim)
      in [i0, i1, i2, i3, i4, i5, i6, i7])"

definition isosurface_functor ::
  "image3d \<Rightarrow> real \<Rightarrow> int list \<Rightarrow> int \<times> int \<times> int \<times> int \<Rightarrow>
   float4 list \<times> float3 list \<Rightarrow> error + (float4 list \<times> float3 list)" where
  "isosurface_functor input isovalue triangle_table indices_tuple out =
     (case indices_tuple of (cell_id, outputVertId, cubeindex, numVertices) \<Rightarrow>
      case out of (vertices_output, normals_output) \<Rightarrow>
      let xdim = dim0 input; ydim = dim1 input;
          cells_per_layer = mul32 (sub32 xdim 1) (sub32 ydim 1)
      in and_then (cell_xyz xdim ydim cells_per_layer cell_id) (\<lambda>(x, y, z).
         let i = corner_indices xdim ydim x y z;
             f = map (point_data input) i;
             p = map (physical_coordinates input) i
         in and_then (interp_loop triangle_table isovalue f p cubeindex outputVertId numVertices 0
                        vertices_output) (\<lambda>vertices_output'.
            and_then (normal_loop outputVertId numVertices 0 vertices_output' normals_output)
              (\<lambda>normals_output'. Inr (vertices_output', normals_output')))))"

subsection \<open>The surface and its extraction\<close>

record marching_cube =
  isovalue :: real
  discardMinVals :: bool
  useInterop :: bool
  case_index :: "int list"
  num_vertices :: "int list"
  valid_cell_enum :: "int list"
  valid_cell_indices :: "int list"
  output_vertices_enum :: "int list"
  vertices :: "float4 list"
  normals :: "float3 list"
  scalars :: "real list"
  num_total_vertices :: int

definition set_isovalue :: "real \<Rightarrow> marching_cube \<Rightarrow> marching_cube" where
  "set_isovalue val s = s\<lparr>isovalue := val\<rparr>"

text \<open>
  \<open>operator()\<close>, as compiled without \<open>USE_INTEROP\<close>: both branches guarded by
  \<open>useInterop\<close> are then empty. The passes are named after the comments of the source.
\<close>

definition classify_all_cells :: "image3d \<Rightarrow> marching_cube \<Rightarrow> error + marching_cube" where
  "classify_all_cells input s =
     (if NCells input < 0 then Inl Length_error
      else and_then (transform (classify_cell input (isovalue s) (discardMinVals s) numVertsTable)
                       (CountingIterator (NCells input))) (\<lambda>cs.
           Inr (s\<lparr>case_index := map fst cs, num_vertices := map snd cs\<rparr>)))"

definition enumerate_valid_cells :: "marching_cube \<Rightarrow> marching_cube" where
  "enumerate_valid_cells s =
     s\<lparr>valid_cell_enum := transform_inclusive_scan is_valid_cell (num_vertices s)\<rparr>"

definition find_valid_cells :: "int list \<Rightarrow> int \<Rightarrow> int list" where
  "find_valid_cells enum num_valid_cells = map (upper_bound enum) (CountingIterator num_valid_cells)"

definition enumerate_output_vertices :: "int \<Rightarrow> marching_cube \<Rightarrow> error + marching_cube" where
  "enumerate_output_vertices num_valid_cells s =
     (let s1 = s\<lparr>valid_cell_indices := find_valid_cells (valid_cell_enum s) num_valid_cells\<rparr>
      in and_then (make_permutation_iterator (num_vertices s1) (valid_cell_indices s1)) (\<lambda>counts.
         let s2 = s1\<lparr>output_vertices_enum := exclusive_scan counts\<rparr>
         in and_then (back_of (valid_cell_indices s2)) (\<lambda>last_cell.
            and_then (rd (num_vertices s2) last_cell) (\<lambda>last_count.
            and_then (back_of (output_vertices_enum s2)) (\<lambda>last_offset.
            Inr (s2\<lparr>num_total_vertices := uint32 (add32 last_count last_offset)\<rparr>))))))"

definition generate_geometry :: "image3d \<Rightarrow> marching_cube \<Rightarrow> error + marching_cube" where
  "generate_geometry input s =
     (if useInterop s then Inr s
      else and_then (resize (vertices s) (num_total_vertices s) (0, 0, 0, 0)) (\<lambda>vs.
           and_then (resize (normals s) (num_total_vertices s) (0, 0, 0)) (\<lambda>ns.
           and_then (make_permutation_iterator (case_index s) (valid_cell_indices s)) (\<lambda>cases.
           and_then (make_permutation_iterator (num_vertices s) (valid_cell_indices s)) (\<lambda>counts.
           and_then (for_each (isosurface_functor input (isovalue s) triTable)
                       (zip4 (valid_cell_indices s) (output_vertices_enum s) cases counts)
                       (vs, ns)) (\<lambda>(vs', ns').
           Inr (s\<lparr>vertices := vs', normals := ns'\<rparr>)))))))"

definition operator_call :: "image3d \<Rightarrow> marching_cube \<Rightarrow> error + marching_cube" where
  "operator_call input s =
     and_then (classify_all_cells input s) (\<lambda>s1.
     let s2 = enumerate_valid_cells s1
     in and_then (back_of (valid_cell_enum s2)) (\<lambda>num_valid_cells.
        if num_valid_cells = 0 then Inr (s2\<lparr>vertices := [], normals := [], scalars := []\<rparr>)
        else and_then (enumerate_output_vertices num_valid_cells s2) (generate_geometry input)))"

text \<open>
  The constructor: the flags get their defaults and the containers are empty. It leaves
  \<open>num_total_vertices\<close> uninitialised; the second argument stands for that value.
\<close>

definition new_marching_cube :: "real \<Rightarrow> int \<Rightarrow> marching_cube" where
  "new_marching_cube isovalue' indeterminate =
     \<lparr>isovalue = isovalue', discardMinVals = True, useInterop = False,
      case_index = [], num_vertices = [], valid_cell_enum = [], valid_cell_indices = [],
      output_vertices_enum = [], vertices = [], normals = [], scalars = [],
      num_total_vertices = indeterminate\<rparr>"

subsection \<open>Auxiliary notions and example inputs\<close>

text \<open>
  The case index that \<open>classify_cell\<close> computes for the cell whose corner 0 is the point
  \<open>i0\<close>.
\<close>

definition cubeindex_of :: "image3d \<Rightarrow> real \<Rightarrow> int \<Rightarrow> int" where
  "cubeindex_of input isoval i0 =
     (let xdim = dim0 input; points_per_layer = mul32 (dim0 input) (dim1 input);
          f = point_data input in
        b2i (f i0 > isoval)
      + b2i (f (add32 i0 1) > isoval) * 2
      + b2i (f (add32 (add32 i0 1) xdim) > isoval) * 4
      + b2i (f (add32 i0 xdim) > isoval) * 8
      + b2i (f (add32 i0 points_per_layer) > isoval) * 16
      + b2i (f (add32 (add32 i0 1) points_per_layer) > isoval) * 32
      + b2i (f (add32 (add32 (add32 i0 1) xdim) points_per_layer) > isoval) * 64
      + b2i (f (add32 (add32 i0 xdim) points_per_layer) > isoval) * 128)"

text \<open>
  A grid of \<open>2 \<times> 2 \<times> 2\<close> points, one cell: the samples of the bottom face (points 0 to 3)
  are 0, those of the top face (points 4 to 7) are 1; the points lie on the unit cube.
\<close>

definition single_cell_field :: image3d where
  "single_cell_field =
     \<lparr>dim0 = 2, dim1 = 2, dim2 = 2, NCells = 1,
      point_data = (\<lambda>i. if i < 4 then 0 else 1),
      physical_coordinates =
        (\<lambda>i. (real_of_int (i mod 2), real_of_int ((i div 2) mod 2), real_of_int (i div 4)))\<rparr>"

text \<open>The check of one row of the case table against its entry of the vertex count table.\<close>

definition row_ok :: "int list \<times> int \<Rightarrow> bool" where
  "row_ok rn = (case rn of (row, n) \<Rightarrow>
      length row = 16 \<and> n mod 3 = 0 \<and> n = int (length (filter (\<lambda>e. e \<noteq> - 1) row)))"

text \<open>
  The check that an edge of the case table joins two corners of which exactly one has its
  bit set in the case index, and its extension to the edges that a row emits.
\<close>

definition edge_crosses :: "int \<Rightarrow> int \<Rightarrow> bool" where
  "edge_crosses cubeindex edge =
     (0 \<le> edge \<and> edge < 12 \<and>
      bit cubeindex (nat (verticesForEdge ! nat (2 * edge)))
        \<noteq> bit cubeindex (nat (verticesForEdge ! nat (2 * edge + 1))))"

definition row_crosses :: "nat \<times> int list \<times> int \<Rightarrow> bool" where
  "row_crosses crn =
     (case crn of (c, row, n) \<Rightarrow> list_all (edge_crosses (int c)) (take (nat n) row))"

text \<open>
  The surface that the extraction computes for \<open>single_cell_field\<close> at the isovalue 0.5:
  two triangles in the plane \<open>z = 0.5\<close>.
\<close>

definition single_cell_surface :: marching_cube where
  "single_cell_surface =
     \<lparr>isovalue = 1/2, discardMinVals = True, useInterop = False,
      case_index = [240], num_vertices = [6], valid_cell_enum = [1], valid_cell_indices = [0],
      output_vertices_enum = [0],
      vertices = [(1, 0, 1/2, 1), (1, 1, 1/2, 1), (0, 0, 1/2, 1),
                  (1, 1, 1/2, 1), (0, 1, 1/2, 1), (0, 0, 1/2, 1)],
      normals = [(0, 0, 1), (0, 0, 1), (0, 0, 1), (0, 0, 1), (0, 0, 1), (0, 0, 1)],
      scalars = [],
      num_total_vertices = 6\<rparr>"


text \<open>
  A grid of \<open>65536 \<times> 65536 \<times> 2\<close> points: the samples of the layer \<open>z = 0\<close> (the points
  below \<open>65536 * 65536\<close>) are 0, those of the layer \<open>z = 1\<close> are 1. The number of points
  of a layer does not fit a 32-bit \<open>int\<close>, nor does the cell count: \<open>NCells\<close> holds the
  product \<open>65535 * 65535 * 1\<close> as an \<open>int\<close> does.
\<close>

definition wrapped_field :: image3d where
  "wrapped_field =
     \<lparr>dim0 = 65536, dim1 = 65536, dim2 = 2, NCells = - 131071,
      point_data = (\<lambda>i. if i < 4294967296 then 0 else 1),
      physical_coordinates =
        (\<lambda>i. (real_of_int (i mod 65536), real_of_int ((i div 65536) mod 65536),
              real_of_int (i div 4294967296)))\<rparr>"



text \<open>The prefix sums of a list without wrap-around, from a starting value.\<close>

fun prefix_sums :: "int \<Rightarrow> int list \<Rightarrow> int list" where
  "prefix_sums acc [] = []"
| "prefix_sums acc (x # xs) = acc # prefix_sums (acc + x) xs"




section \<open>Basic facts\<close>

declare interp_loop.simps [simp del] normal_loop.simps [simp del]

lemma and_then_simps [simp]:
  "and_then (Inr x) k = k x"
  "and_then (Inl e) k = Inl e"
  by (simp_all add: and_then_def)

lemma and_then_eq_Inr:
  "and_then m k = Inr y \<longleftrightarrow> (\<exists>x. m = Inr x \<and> k x = Inr y)"
  by (cases m) simp_all


lemma c_div_nonneg: "0 \<le> a \<Longrightarrow> 0 < b \<Longrightarrow> c_div a b = Inr (a div b)"
  by (cases "a = 0") (simp_all add: c_div_def)

lemma c_mod_nonneg: "0 \<le> a \<Longrightarrow> 0 < b \<Longrightarrow> c_mod a b = Inr (a mod b)"
  by (cases "a = 0") (simp_all add: c_mod_def minus_mult_div_eq_mod)

lemma length_tables [simp]:
  "length triTable_array = 256"
  "length numVerticesTable_array = 256"
  "length numVertsTable = 256"
  unfolding triTable_array_def numVerticesTable_array_def numVertsTable_def by simp_all

section \<open>Arithmetic in 32 bits\<close>

lemma int32_id: "- 2147483648 \<le> x \<Longrightarrow> x < 2147483648 \<Longrightarrow> int32 x = x"
  by (simp add: int32_def)

lemma int32_mod: "int32 x mod 4294967296 = x mod 4294967296"
  by (simp add: int32_def mod_diff_left_eq)

lemma int32_cong: "a mod 4294967296 = b mod 4294967296 \<Longrightarrow> int32 a = int32 b"
  unfolding int32_def by (metis mod_add_left_eq)

lemma mul32_assoc: "mul32 z (mul32 a b) = mul32 (mul32 z a) b"
proof -
  have "(z * int32 (a * b)) mod 4294967296 = (z * (a * b)) mod 4294967296"
    using int32_mod[of "a * b"] by (metis mod_mult_right_eq)
  moreover have "(int32 (z * a) * b) mod 4294967296 = (z * a * b) mod 4294967296"
    using int32_mod[of "z * a"] by (metis mod_mult_left_eq)
  ultimately show ?thesis
    unfolding mul32_def by (intro int32_cong) (simp add: mult.assoc)
qed

lemma add32_id: "- 2147483648 \<le> a + b \<Longrightarrow> a + b < 2147483648 \<Longrightarrow> add32 a b = a + b"
  unfolding add32_def by (rule int32_id)

lemma sub32_id: "- 2147483648 \<le> a - b \<Longrightarrow> a - b < 2147483648 \<Longrightarrow> sub32 a b = a - b"
  unfolding sub32_def by (rule int32_id)

lemma mul32_id: "- 2147483648 \<le> a * b \<Longrightarrow> a * b < 2147483648 \<Longrightarrow> mul32 a b = a * b"
  unfolding mul32_def by (rule int32_id)


lemma div_less_bound:
  fixes x m k :: int
  assumes "0 < m" "x < k * m"
  shows "x div m < k"
proof (rule ccontr)
  assume "\<not> x div m < k"
  then have "k * m \<le> (x div m) * m"
    using assms(1) by (intro mult_right_mono) simp_all
  moreover have "(x div m) * m \<le> x"
    using div_mult_mod_eq[of x m] pos_mod_sign[OF assms(1), of x] by linarith
  ultimately show False
    using assms(2) by simp
qed

text \<open>
  The sizes of a grid whose dimensions are at least 2: a layer has fewer points than the
  grid, and fewer cells than points.
\<close>

lemma grid_sizes:
  fixes a b c :: int
  assumes "2 \<le> a" "2 \<le> b" "2 \<le> c"
  shows "2 * a \<le> a * b" "2 * (a * b) \<le> a * b * c" "1 \<le> (a - 1) * (b - 1)"
    "(a - 1) * (b - 1) \<le> a * b" "1 \<le> (a - 1) * (b - 1) * (c - 1)"
    "a * b * c \<le> 8 * ((a - 1) * (b - 1) * (c - 1))"
proof -
  show "2 * a \<le> a * b"
    using mult_left_mono[of 2 b a] assms by (simp add: mult.commute)
  have ab: "0 \<le> a * b" using assms by simp
  show "2 * (a * b) \<le> a * b * c"
    using mult_left_mono[of 2 c "a * b"] ab assms by (simp add: mult.commute)
  show l: "1 \<le> (a - 1) * (b - 1)"
    using mult_mono[of 1 "a - 1" 1 "b - 1"] assms by simp
  show "(a - 1) * (b - 1) \<le> a * b"
    using mult_mono[of "a - 1" a "b - 1" b] assms by simp
  show "1 \<le> (a - 1) * (b - 1) * (c - 1)"
    using mult_mono[of 1 "(a - 1) * (b - 1)" 1 "c - 1"] l assms by simp
  have "a * b \<le> (2 * (a - 1)) * (2 * (b - 1))"
    using assms by (intro mult_mono) simp_all
  then have "a * b * c \<le> ((2 * (a - 1)) * (2 * (b - 1))) * (2 * (c - 1))"
    using assms by (intro mult_mono) simp_all
  moreover have "((2 * (a - 1)) * (2 * (b - 1))) * (2 * (c - 1))
                   = 8 * ((a - 1) * (b - 1) * (c - 1))"
    by algebra
  ultimately show "a * b * c \<le> 8 * ((a - 1) * (b - 1) * (c - 1))"
    by simp
qed

lemma cell_xyz_nonneg:
  assumes "2 \<le> xdim" "2 \<le> ydim" "xdim * ydim < 2147483648" "0 \<le> cell_id"
  shows "cell_xyz xdim ydim (mul32 (sub32 xdim 1) (sub32 ydim 1)) cell_id =
           Inr (cell_id mod (xdim - 1), (cell_id div (xdim - 1)) mod (ydim - 1),
                cell_id div ((xdim - 1) * (ydim - 1)))"
proof -
  have s: "2 * xdim \<le> xdim * ydim" "2 * ydim \<le> xdim * ydim"
    using grid_sizes(1)[OF assms(1,2) assms(1)] grid_sizes(1)[OF assms(2,1) assms(1)]
    by (simp_all add: mult.commute)
  have x: "sub32 xdim 1 = xdim - 1" and y: "sub32 ydim 1 = ydim - 1"
    using assms s by (intro sub32_id; linarith)+
  have l: "0 < (xdim - 1) * (ydim - 1)" "(xdim - 1) * (ydim - 1) \<le> xdim * ydim"
    using grid_sizes(3,4)[OF assms(1,2) assms(1)] by simp_all
  then have m: "mul32 (xdim - 1) (ydim - 1) = (xdim - 1) * (ydim - 1)"
    using assms(3) by (intro mul32_id) simp_all
  have q: "0 \<le> cell_id div (xdim - 1)"
    using assms by (simp add: pos_imp_zdiv_nonneg_iff)
  show ?thesis
    unfolding x y m
    using assms q l by (simp add: cell_xyz_def c_div_nonneg c_mod_nonneg x y)
qed

section \<open>The case index\<close>

lemma cubeindex_range:
  "0 \<le> b2i b0 + b2i b1 * 2 + b2i b2 * 4 + b2i b3 * 8
        + b2i b4 * 16 + b2i b5 * 32 + b2i b6 * 64 + b2i b7 * 128"
  "b2i b0 + b2i b1 * 2 + b2i b2 * 4 + b2i b3 * 8
        + b2i b4 * 16 + b2i b5 * 32 + b2i b6 * 64 + b2i b7 * 128 < 256"
  by (simp_all add: b2i_def)

lemma cubeindex_bits:
  fixes c :: int
  assumes "c = b2i b0 + b2i b1 * 2 + b2i b2 * 4 + b2i b3 * 8
             + b2i b4 * 16 + b2i b5 * 32 + b2i b6 * 64 + b2i b7 * 128"
  shows "bit c 0 = b0" "bit c 1 = b1" "bit c 2 = b2" "bit c 3 = b3"
        "bit c 4 = b4" "bit c 5 = b5" "bit c 6 = b6" "bit c 7 = b7"
  unfolding assms
  by (cases b0; cases b1; cases b2; cases b3; cases b4; cases b5; cases b6; cases b7;
      simp add: b2i_def bit_iff_odd)+

lemma cubeindex_of_range:
  "0 \<le> cubeindex_of input isoval i0" "cubeindex_of input isoval i0 < 256"
  unfolding cubeindex_of_def Let_def by (rule cubeindex_range)+

text \<open>What \<open>classify_cell\<close> returns, wherever it returns.\<close>

lemma classify_cell_Inr:
  assumes "classify_cell input isoval d numVertsTable cell_id = Inr (c, n)"
  shows "\<exists>x y z. cell_xyz (dim0 input) (dim1 input)
                    (mul32 (sub32 (dim0 input) 1) (sub32 (dim1 input) 1)) cell_id = Inr (x, y, z)
           \<and> c = cubeindex_of input isoval
                   (add32 (add32 x (mul32 y (dim0 input)))
                      (mul32 z (mul32 (dim0 input) (dim1 input))))
           \<and> n = numVertsTable ! nat c"
proof -
  obtain x y z where
    xyz: "cell_xyz (dim0 input) (dim1 input)
            (mul32 (sub32 (dim0 input) 1) (sub32 (dim1 input) 1)) cell_id = Inr (x, y, z)"
    using assms unfolding classify_cell_def Let_def
    by (cases "cell_xyz (dim0 input) (dim1 input)
                 (mul32 (sub32 (dim0 input) 1) (sub32 (dim1 input) 1)) cell_id") auto
  define i0 where "i0 = add32 (add32 x (mul32 y (dim0 input)))
                          (mul32 z (mul32 (dim0 input) (dim1 input)))"
  have r: "rd numVertsTable (cubeindex_of input isoval i0)
             = Inr (numVertsTable ! nat (cubeindex_of input isoval i0))"
    using cubeindex_of_range[of input isoval i0] by (simp add: rd_def)
  have "classify_cell input isoval d numVertsTable cell_id
          = Inr (cubeindex_of input isoval i0, numVertsTable ! nat (cubeindex_of input isoval i0))"
    unfolding classify_cell_def Let_def xyz
    using r[unfolded cubeindex_of_def Let_def]
    by (simp add: cubeindex_of_def Let_def i0_def)
  then show ?thesis
    using assms xyz unfolding i0_def by auto
qed

text \<open>
  Where the number of points fits an \<open>int\<close>, no index of a cell of the grid wraps around.
\<close>

lemma cell_index_bounds:
  fixes a b c :: int
  assumes d: "2 \<le> a" "2 \<le> b" "2 \<le> c"
    and cell: "0 \<le> cell_id" "cell_id < (a - 1) * (b - 1) * (c - 1)"
  defines "x \<equiv> cell_id mod (a - 1)"
    and "y \<equiv> (cell_id div (a - 1)) mod (b - 1)"
    and "z \<equiv> cell_id div ((a - 1) * (b - 1))"
  shows "0 \<le> x" "x \<le> a - 2" "0 \<le> y * a" "y * a \<le> a * b - 2 * a"
    "0 \<le> z * (a * b)" "z * (a * b) \<le> a * b * c - 2 * (a * b)"
proof -
  have l: "0 < (a - 1) * (b - 1)"
    using grid_sizes(3)[OF d] by simp
  have "x < a - 1" "y < b - 1"
    unfolding x_def y_def using d by (intro pos_mod_bound; simp)+
  then have x2: "x \<le> a - 2" and y2: "y \<le> b - 2"
    by simp_all
  have x1: "0 \<le> x" and y1: "0 \<le> y"
    using d by (simp_all add: x_def y_def)
  show "0 \<le> x" "x \<le> a - 2"
    by (rule x1, rule x2)
  note y = y1 y2
  have z0: "0 \<le> z"
    using cell(1) l by (simp add: z_def pos_imp_zdiv_nonneg_iff)
  have "z < c - 1"
    unfolding z_def using l cell(2) by (intro div_less_bound) (simp_all add: mult.commute)
  then have z: "z \<le> c - 2" by simp
  show "0 \<le> y * a" using y d by simp
  have "y * a \<le> (b - 2) * a"
    using y d by (intro mult_right_mono) simp_all
  then show "y * a \<le> a * b - 2 * a"
    by (simp add: algebra_simps)
  have ab: "0 \<le> a * b" using d by simp
  show "0 \<le> z * (a * b)" using z0 ab by simp
  have "z * (a * b) \<le> (c - 2) * (a * b)"
    using z ab by (intro mult_right_mono) simp_all
  then show "z * (a * b) \<le> a * b * c - 2 * (a * b)"
    by (simp add: algebra_simps)
qed

lemma classify_cell_eq:
  assumes d: "2 \<le> dim0 input" "2 \<le> dim1 input" "2 \<le> dim2 input"
    and pts: "dim0 input * dim1 input * dim2 input < 2147483648"
    and cell: "0 \<le> cell_id"
      "cell_id < (dim0 input - 1) * (dim1 input - 1) * (dim2 input - 1)"
  shows "classify_cell input isoval fl numVertsTable cell_id =
           (let xdim = dim0 input; points_per_layer = dim0 input * dim1 input;
                i0 = cell_id mod (dim0 input - 1)
                       + (cell_id div (dim0 input - 1)) mod (dim1 input - 1) * dim0 input
                       + cell_id div ((dim0 input - 1) * (dim1 input - 1))
                           * (dim0 input * dim1 input);
                f = point_data input;
                c = b2i (f i0 > isoval)
                  + b2i (f (i0 + 1) > isoval) * 2
                  + b2i (f (i0 + 1 + xdim) > isoval) * 4
                  + b2i (f (i0 + xdim) > isoval) * 8
                  + b2i (f (i0 + points_per_layer) > isoval) * 16
                  + b2i (f (i0 + 1 + points_per_layer) > isoval) * 32
                  + b2i (f (i0 + 1 + xdim + points_per_layer) > isoval) * 64
                  + b2i (f (i0 + xdim + points_per_layer) > isoval) * 128
            in Inr (c, numVertsTable ! nat c))"
proof -
  define a where "a = dim0 input"
  define b where "b = dim1 input"
  define P where "P = dim0 input * dim1 input * dim2 input"
  define A where "A = a * b"
  define x where "x = cell_id mod (a - 1)"
  define y where "y = (cell_id div (a - 1)) mod (b - 1)"
  define z where "z = cell_id div ((a - 1) * (b - 1))"
  define ya where "ya = y * a"
  define zA where "zA = z * A"
  note g = grid_sizes(1,2)[OF d]
  have A: "2 * a \<le> A" "2 * A \<le> P" "P < 2147483648" "2 \<le> a"
    unfolding A_def a_def b_def P_def using g pts d by linarith+
  note cb = cell_index_bounds[OF d cell]
  have bx: "0 \<le> x" "x \<le> a - 2" and bya: "0 \<le> ya" "ya \<le> A - 2 * a"
    and bzA: "0 \<le> zA" "zA \<le> P - 2 * A"
    unfolding x_def y_def z_def ya_def zA_def A_def a_def b_def P_def by (rule cb)+
  have "a * b < 2147483648"
    using A unfolding A_def by linarith
  then have xyz: "cell_xyz a b (mul32 (sub32 a 1) (sub32 b 1)) cell_id = Inr (x, y, z)"
    unfolding x_def y_def z_def
    using d cell(1) by (intro cell_xyz_nonneg) (simp_all add: a_def b_def)
  have "- 2147483648 \<le> A" "A < 2147483648"
    using A by linarith+
  then have mA: "mul32 a b = A"
    unfolding A_def by (rule mul32_id)
  have "- 2147483648 \<le> ya" "ya < 2147483648"
    using bya A by linarith+
  then have m1: "mul32 y a = ya"
    unfolding ya_def by (rule mul32_id)
  have "- 2147483648 \<le> zA" "zA < 2147483648"
    using bzA A by linarith+
  then have m2: "mul32 z A = zA"
    unfolding zA_def by (rule mul32_id)
  have "add32 x ya = x + ya"
    using bx bya A by (intro add32_id) linarith+
  moreover have "add32 (x + ya) zA = x + ya + zA"
    using bx bya bzA A by (intro add32_id) linarith+
  ultimately have i0: "add32 (add32 x ya) zA = x + ya + zA"
    by simp
  define i0 where "i0 = x + ya + zA"
  have b0: "0 \<le> i0" "i0 + 1 + a + A < 2147483648"
    unfolding i0_def using bx bya bzA A by linarith+
  have idx: "add32 i0 1 = i0 + 1" "add32 (i0 + 1) a = i0 + 1 + a" "add32 i0 a = i0 + a"
    "add32 i0 A = i0 + A" "add32 (i0 + 1) A = i0 + 1 + A"
    "add32 (i0 + 1 + a) A = i0 + 1 + a + A" "add32 (i0 + a) A = i0 + a + A"
    using b0 A by (intro add32_id; linarith)+
  define c where "c = b2i (point_data input i0 > isoval)
                  + b2i (point_data input (i0 + 1) > isoval) * 2
                  + b2i (point_data input (i0 + 1 + a) > isoval) * 4
                  + b2i (point_data input (i0 + a) > isoval) * 8
                  + b2i (point_data input (i0 + A) > isoval) * 16
                  + b2i (point_data input (i0 + 1 + A) > isoval) * 32
                  + b2i (point_data input (i0 + 1 + a + A) > isoval) * 64
                  + b2i (point_data input (i0 + a + A) > isoval) * 128"
  have r: "rd numVertsTable c = Inr (numVertsTable ! nat c)"
    using cubeindex_range[of "point_data input i0 > isoval"] unfolding c_def
    by (simp add: rd_def)
  have "classify_cell input isoval fl numVertsTable cell_id = Inr (c, numVertsTable ! nat c)"
    unfolding classify_cell_def Let_def a_def[symmetric] b_def[symmetric] xyz mA
    using r[unfolded c_def]
    by (simp add: m1 m2 i0 i0_def[symmetric] idx c_def)
  then show ?thesis
    unfolding Let_def c_def i0_def ya_def zA_def x_def y_def z_def A_def a_def b_def .
qed

lemma numVertsTable_0: "numVertsTable ! 0 = 0"
  by (simp add: numVertsTable_def numVerticesTable_array_def)

lemma classify_wrapped_cell:
  "classify_cell wrapped_field (1/2) d numVertsTable 0 = Inr (0, 0)"
proof -
  have d: "dim0 wrapped_field = 65536" "dim1 wrapped_field = 65536"
    by (simp_all add: wrapped_field_def)
  have xyz: "cell_xyz 65536 65536 (mul32 (sub32 65536 1) (sub32 65536 1)) 0 = Inr (0, 0, 0)"
    by (simp add: cell_xyz_def c_div_def c_mod_def int32_def sub32_def mul32_def)
  have i: "mul32 65536 65536 = 0" "mul32 0 65536 = 0" "mul32 0 0 = 0" "add32 0 0 = 0"
    "add32 0 1 = 1" "add32 1 65536 = 65537" "add32 0 65536 = 65536"
    "add32 1 0 = 1" "add32 65537 0 = 65537" "add32 65536 0 = 65536"
    by (simp_all add: int32_def add32_def mul32_def)
  have f: "point_data wrapped_field 0 = 0" "point_data wrapped_field 1 = 0"
    "point_data wrapped_field 65537 = 0" "point_data wrapped_field 65536 = 0"
    by (simp_all add: wrapped_field_def)
  show ?thesis
    unfolding classify_cell_def Let_def d xyz and_then_simps prod.case i f
    by (simp add: b2i_def rd_def numVertsTable_0)
qed

text \<open>
  C8, as the claim states it, fails where the sizes of the grid do not fit a 32-bit \<open>int\<close>.
  In the grid of \<open>65536 \<times> 65536 \<times> 2\<close> points, \<open>points_per_layer = xdim * ydim\<close> wraps to 0,
  so for the cell 0 the corners 4 to 7 are read where the corners 0 to 3 are: the case index
  is 0 at the isovalue 0.5, although the samples at the offset \<open>dim0 * dim1\<close> and above
  exceed the isovalue.
\<close>

theorem classify_cell_wraps:
  "2 \<le> dim0 wrapped_field \<and> 2 \<le> dim1 wrapped_field \<and> 2 \<le> dim2 wrapped_field
   \<and> classify_cell wrapped_field (1/2) True numVertsTable 0 = Inr (0, 0)
   \<and> \<not> bit (0::int) 4
   \<and> point_data wrapped_field (0 + dim0 wrapped_field * dim1 wrapped_field) > 1/2"
proof -
  have "2 \<le> dim0 wrapped_field" "2 \<le> dim1 wrapped_field" "2 \<le> dim2 wrapped_field"
    "point_data wrapped_field (0 + dim0 wrapped_field * dim1 wrapped_field) > 1/2"
    by (simp_all add: wrapped_field_def)
  then show ?thesis
    using classify_wrapped_cell[of True] by simp
qed

text \<open>
  C8, amended. In a grid whose dimensions are at least 2 and whose number of points
  \<open>dim0 * dim1 * dim2\<close> is below \<open>2^31\<close> (it fits a 32-bit \<open>int\<close>), \<open>classify_cell\<close> returns
  for every cell index \<open>0 \<le> id < (dim0 - 1) * (dim1 - 1) * (dim2 - 1)\<close> the pair \<open>(c, n)\<close>
  where \<open>0 \<le> c < 256\<close>, bit \<open>k\<close> of \<open>c\<close> is set iff the sample at corner \<open>k\<close> is strictly
  greater than the isovalue, the corners being the points at the offsets \<open>0\<close>, \<open>1\<close>,
  \<open>1 + dim0\<close>, \<open>dim0\<close> and the same four plus \<open>dim0 * dim1\<close> from the base point
  \<open>x + y * dim0 + z * dim0 * dim1\<close> with \<open>x = id mod (dim0 - 1)\<close>,
  \<open>y = (id div (dim0 - 1)) mod (dim1 - 1)\<close>, \<open>z = id div ((dim0 - 1) * (dim1 - 1))\<close>, and
  \<open>n = numVertsTable[c]\<close>.
\<close>

theorem classify_cell_corners:
  assumes "2 \<le> dim0 input" "2 \<le> dim1 input" "2 \<le> dim2 input"
    and "dim0 input * dim1 input * dim2 input < 2147483648"
    and "0 \<le> cell_id" "cell_id < (dim0 input - 1) * (dim1 input - 1) * (dim2 input - 1)"
  shows "\<exists>c. classify_cell input isoval d numVertsTable cell_id = Inr (c, numVertsTable ! nat c)
           \<and> 0 \<le> c \<and> c < 256
           \<and> (let x = cell_id mod (dim0 input - 1);
                   y = (cell_id div (dim0 input - 1)) mod (dim1 input - 1);
                   z = cell_id div ((dim0 input - 1) * (dim1 input - 1));
                   i = x + y * dim0 input + z * dim0 input * dim1 input;
                   f = point_data input
               in bit c 0 = (f i > isoval)
                \<and> bit c 1 = (f (i + 1) > isoval)
                \<and> bit c 2 = (f (i + 1 + dim0 input) > isoval)
                \<and> bit c 3 = (f (i + dim0 input) > isoval)
                \<and> bit c 4 = (f (i + dim0 input * dim1 input) > isoval)
                \<and> bit c 5 = (f (i + 1 + dim0 input * dim1 input) > isoval)
                \<and> bit c 6 = (f (i + 1 + dim0 input + dim0 input * dim1 input) > isoval)
                \<and> bit c 7 = (f (i + dim0 input + dim0 input * dim1 input) > isoval))"
  unfolding classify_cell_eq[OF assms] Let_def
  apply (rule exI, intro conjI, rule refl)
  apply (rule cubeindex_range)+
  apply (rule cubeindex_bits[OF refl, THEN trans]; simp add: mult.assoc)+
  done

theorem classify_cell_corners_witness:
  "2 \<le> dim0 single_cell_field \<and> 2 \<le> dim1 single_cell_field \<and> 2 \<le> dim2 single_cell_field
   \<and> dim0 single_cell_field * dim1 single_cell_field * dim2 single_cell_field < 2147483648
   \<and> (0::int) \<le> 0
   \<and> 0 < (dim0 single_cell_field - 1) * (dim1 single_cell_field - 1)
           * (dim2 single_cell_field - 1)
   \<and> (\<exists>c. classify_cell single_cell_field (1/2) True numVertsTable 0
               = Inr (c, numVertsTable ! nat c)
          \<and> 0 \<le> c \<and> c < 256
          \<and> \<not> bit c 0 \<and> \<not> bit c 1 \<and> \<not> bit c 2 \<and> \<not> bit c 3
          \<and> bit c 4 \<and> bit c 5 \<and> bit c 6 \<and> bit c 7)"
  using classify_cell_corners[of single_cell_field 0 "1/2" True]
  by (simp add: single_cell_field_def)

section \<open>The case tables\<close>

lemma rows_ok: "list_all row_ok (zip triTable_array numVerticesTable_array)"
  unfolding triTable_array_def numVerticesTable_array_def
  by (simp add: row_ok_def)

lemma row_ok_nth: "i < 256 \<Longrightarrow> row_ok (triTable_array ! i, numVerticesTable_array ! i)"
  using rows_ok by (simp add: list_all_length)

lemma triTable_array_240:
  "triTable_array ! 240 = [9, 10, 8, 10, 11, 8, -1, -1, -1, -1, -1, -1, -1, -1, -1, -1]"
  unfolding triTable_array_def by simp

lemma numVerticesTable_array_240: "numVerticesTable_array ! 240 = 6"
  unfolding numVerticesTable_array_def by simp

text \<open>
  C4. For every case index \<open>i\<close> in \<open>[0, 255]\<close>, \<open>numVerticesTable_array[i]\<close> is a multiple
  of 3 and equals the number of entries of row \<open>i\<close> of \<open>triTable_array\<close> that are not the
  sentinel \<open>-1\<close>.
\<close>

theorem numVerticesTable_consistent:
  assumes "i < 256"
  shows "numVerticesTable_array ! i mod 3 = 0
       \<and> numVerticesTable_array ! i
           = int (length (filter (\<lambda>e. e \<noteq> - 1) (triTable_array ! i)))"
  using row_ok_nth[OF assms] unfolding row_ok_def by auto

theorem numVerticesTable_consistent_witness:
  "(240::nat) < 256 \<and> numVerticesTable_array ! 240 mod 3 = 0
     \<and> numVerticesTable_array ! 240 = 6
     \<and> int (length (filter (\<lambda>e. e \<noteq> - 1) (triTable_array ! 240))) = 6"
  using numVerticesTable_consistent[of 240] by (simp add: numVerticesTable_array_240)

section \<open>The flag \<open>discardMinVals\<close>\<close>

lemma classify_cell_flag:
  "classify_cell input isoval d tbl = classify_cell input isoval d' tbl"
  by (rule ext) (simp add: classify_cell_def)

lemma classify_all_cells_flag:
  "classify_all_cells input (s\<lparr>discardMinVals := b\<rparr>)
     = map_sum id (\<lambda>s'. s'\<lparr>discardMinVals := b\<rparr>) (classify_all_cells input s)"
  using classify_cell_flag[of input "isovalue s" b numVertsTable "discardMinVals s"]
  by (simp add: classify_all_cells_def and_then_def split: sum.splits)

lemma enumerate_valid_cells_flag:
  "enumerate_valid_cells (s\<lparr>discardMinVals := b\<rparr>)
     = (enumerate_valid_cells s)\<lparr>discardMinVals := b\<rparr>"
  by (simp add: enumerate_valid_cells_def)

lemma enumerate_output_vertices_flag:
  "enumerate_output_vertices n (s\<lparr>discardMinVals := b\<rparr>)
     = map_sum id (\<lambda>s'. s'\<lparr>discardMinVals := b\<rparr>) (enumerate_output_vertices n s)"
  by (simp add: enumerate_output_vertices_def Let_def and_then_def split: sum.splits)

lemma generate_geometry_flag:
  "generate_geometry input (s\<lparr>discardMinVals := b\<rparr>)
     = map_sum id (\<lambda>s'. s'\<lparr>discardMinVals := b\<rparr>) (generate_geometry input s)"
  by (simp add: generate_geometry_def Let_def and_then_def split: sum.splits prod.splits)

lemma operator_call_flag:
  "operator_call input (s\<lparr>discardMinVals := b\<rparr>)
     = map_sum id (\<lambda>s'. s'\<lparr>discardMinVals := b\<rparr>) (operator_call input s)"
  unfolding operator_call_def classify_all_cells_flag
  by (cases "classify_all_cells input s")
     (simp_all add: Let_def enumerate_valid_cells_flag enumerate_output_vertices_flag
        generate_geometry_flag and_then_def split: sum.splits)

text \<open>
  C10. For every input field, isovalue and cell index, \<open>classify_cell\<close> returns the same
  pair whether \<open>discardMinVals\<close> is true or false, and two extractions that differ only in
  that flag end alike (with the same error, or with the same vertices, normals and
  \<open>num_total_vertices\<close>).
\<close>

theorem discardMinVals_no_effect:
  "classify_cell input isoval True tbl cell_id = classify_cell input isoval False tbl cell_id
   \<and> map_sum id (\<lambda>s'. (vertices s', normals s', num_total_vertices s'))
        (operator_call input (s\<lparr>discardMinVals := True\<rparr>))
     = map_sum id (\<lambda>s'. (vertices s', normals s', num_total_vertices s'))
        (operator_call input (s\<lparr>discardMinVals := False\<rparr>))"
  by (simp add: operator_call_flag classify_cell_def sum.map_comp comp_def)

section \<open>The edges of the case table\<close>

lemma rows_cross:
  "list_all row_crosses (zip [0..<256] (zip triTable_array numVerticesTable_array))"
  by code_simp

lemma row_crosses_nth:
  "c < 256 \<Longrightarrow> row_crosses (c, triTable_array ! c, numVerticesTable_array ! c)"
  using rows_cross by (simp add: list_all_length)

lemma row_length: "c < 256 \<Longrightarrow> length (triTable_array ! c) = 16"
  using row_ok_nth[of c] by (simp add: row_ok_def)

lemma numVerticesTable_le: "c < 256 \<Longrightarrow> numVerticesTable_array ! c \<le> 16"
proof -
  assume c: "c < 256"
  have "length (filter (\<lambda>e. e \<noteq> - 1) (triTable_array ! c)) \<le> 16"
    using length_filter_le[of _ "triTable_array ! c"] row_length[OF c] by metis
  then show ?thesis
    using row_ok_nth[OF c] by (simp add: row_ok_def)
qed


lemma numVerticesTable_nonneg: "c < 256 \<Longrightarrow> 0 \<le> numVerticesTable_array ! c"
  using row_ok_nth[of c] by (simp add: row_ok_def)

lemma edge_crosses_nth:
  assumes "c < 256" "v < nat (numVerticesTable_array ! c)"
  shows "edge_crosses (int c) (triTable_array ! c ! v)"
proof -
  have "v < length (take (nat (numVerticesTable_array ! c)) (triTable_array ! c))"
    using assms numVerticesTable_le[OF assms(1)] row_length[OF assms(1)] by simp
  then show ?thesis
    using row_crosses_nth[OF assms(1)] assms(2)
    by (simp add: row_crosses_def list_all_length)
qed

lemma concat_uniform_length:
  "\<forall>xs \<in> set xss. length xs = m \<Longrightarrow> length (concat xss) = length xss * m"
  by (induction xss) simp_all

lemma concat_uniform_nth:
  "\<forall>xs \<in> set xss. length xs = m \<Longrightarrow> i < length xss \<Longrightarrow> j < m
     \<Longrightarrow> concat xss ! (i * m + j) = xss ! i ! j"
proof (induction xss arbitrary: i)
  case Nil
  then show ?case by simp
next
  case (Cons xs xss)
  show ?case
  proof (cases i)
    case 0
    then show ?thesis using Cons.prems by (simp add: nth_append)
  next
    case (Suc k)
    then show ?thesis using Cons.prems Cons.IH[of k] by (simp add: nth_append add.assoc)
  qed
qed

lemma rows_uniform: "\<forall>xs \<in> set triTable_array. length xs = 16"
  using row_length by (auto simp: in_set_conv_nth)

lemma length_triTable [simp]: "length triTable = 4096"
  unfolding triTable_def using concat_uniform_length[OF rows_uniform] by simp

lemma triTable_nth:
  "c < 256 \<Longrightarrow> v < 16 \<Longrightarrow> triTable ! (c * 16 + v) = triTable_array ! c ! v"
  unfolding triTable_def using concat_uniform_nth[OF rows_uniform, of c v] by simp

lemma verticesForEdge_range:
  "list_all (\<lambda>k. 0 \<le> k \<and> k < 8) verticesForEdge" "length verticesForEdge = 24"
  by (simp_all add: verticesForEdge_def)

lemma rd_int: "n < length xs \<Longrightarrow> rd xs (int n) = Inr (xs ! n)"
  by (simp add: rd_def)

lemma edge_corners_row:
  assumes c: "c < 256" and v: "v < 16" and e: "0 \<le> triTable_array ! c ! v"
    "triTable_array ! c ! v < 12"
  shows "edge_corners triTable (int c) (int v)
           = Inr (verticesForEdge ! nat (2 * (triTable_array ! c ! v)),
                  verticesForEdge ! nat (2 * (triTable_array ! c ! v) + 1))"
proof -
  define e where "e = triTable_array ! c ! v"
  have "mul32 (int c) 16 = int c * 16"
    using c by (intro mul32_id) simp_all
  moreover have "add32 (int c * 16) (int v) = int c * 16 + int v"
    using c v by (intro add32_id) simp_all
  ultimately have i: "add32 (mul32 (int c) 16) (int v) = int (c * 16 + v)"
    by simp
  have "c * 16 + v < length triTable"
    using c v by simp
  then have "rd triTable (int (c * 16 + v)) = Inr (triTable ! (c * 16 + v))"
    by (rule rd_int)
  then have rd1: "rd triTable (add32 (mul32 (int c) 16) (int v)) = Inr e"
    unfolding i e_def triTable_nth[OF c v] .
  have e: "0 \<le> e" "e < 12"
    using assms by (simp_all add: e_def)
  have j: "mul32 2 e = 2 * e" "add32 (2 * e) 1 = 2 * e + 1"
    using e by (intro mul32_id add32_id; simp)+
  have "edge_corners triTable (int c) (int v)
          = Inr (verticesForEdge ! nat (2 * e), verticesForEdge ! nat (2 * e + 1))"
    unfolding edge_corners_def rd1 and_then_simps j
    using e by (simp add: rd_def verticesForEdge_range)
  then show ?thesis
    unfolding e_def .
qed

lemma edge_corners_valid:
  assumes "0 \<le> c" "c < 256" "0 \<le> v" "v < numVertsTable ! nat c"
  shows "\<exists>v0 v1. edge_corners triTable c v = Inr (v0, v1)
            \<and> 0 \<le> v0 \<and> v0 < 8 \<and> 0 \<le> v1 \<and> v1 < 8
            \<and> bit c (nat v0) \<noteq> bit c (nat v1)"
proof -
  have cn: "nat c < 256" using assms by simp
  have vn: "nat v < nat (numVerticesTable_array ! nat c)"
    using assms by (simp add: numVertsTable_def)
  have v16: "nat v < 16"
    using vn numVerticesTable_le[OF cn] by linarith
  define e where "e = triTable_array ! nat c ! nat v"
  have ec: "edge_crosses c e"
    using edge_crosses_nth[OF cn vn] assms by (simp add: e_def)
  then have e: "0 \<le> e" "e < 12" by (simp_all add: edge_crosses_def)
  define v0 where "v0 = verticesForEdge ! nat (2 * e)"
  define v1 where "v1 = verticesForEdge ! nat (2 * e + 1)"
  have r0: "0 \<le> v0 \<and> v0 < 8" and r1: "0 \<le> v1 \<and> v1 < 8"
    using verticesForEdge_range e unfolding v0_def v1_def
    by (simp_all add: list_all_length)
  have "edge_corners triTable c v = Inr (v0, v1)"
    using edge_corners_row[OF cn v16 e[unfolded e_def]] assms
    by (simp add: v0_def v1_def e_def)
  moreover have "bit c (nat v0) \<noteq> bit c (nat v1)"
    using ec by (simp add: edge_crosses_def v0_def v1_def)
  ultimately show ?thesis using r0 r1 by blast
qed

lemma corner_bits:
  assumes "k < 8"
  shows "bit (cubeindex_of input isoval
                (add32 (add32 x (mul32 y (dim0 input)))
                   (mul32 z (mul32 (dim0 input) (dim1 input))))) k
         = (map (point_data input) (corner_indices (dim0 input) (dim1 input) x y z) ! k > isoval)"
proof -
  have k: "k = 0 \<or> k = 1 \<or> k = 2 \<or> k = 3 \<or> k = 4 \<or> k = 5 \<or> k = 6 \<or> k = 7"
    using assms by linarith
  note b = cubeindex_bits[OF cubeindex_of_def[unfolded Let_def],
      of input isoval "add32 (add32 x (mul32 y (dim0 input)))
                         (mul32 (mul32 z (dim0 input)) (dim1 input))"]
  show ?thesis
    unfolding mul32_assoc using k
    by (elim disjE)
       (simp_all add: b b(2)[unfolded One_nat_def] corner_indices_def Let_def)
qed

text \<open>
  C1. In a grid whose first two dimensions are at least 2, for every isovalue, every cell
  \<open>cell_id \<ge> 0\<close> with the pair \<open>(cubeindex, numVertices)\<close> that \<open>classify_cell\<close> returns
  for it, and every vertex slot \<open>0 \<le> v < numVertices\<close>: the reads of
  \<open>triangle_table[cubeindex*16 + v]\<close> and of \<open>verticesForEdge\<close> are in range and give two
  corners \<open>v0\<close>, \<open>v1\<close> of the cell, one with a sample strictly greater than the isovalue
  and the other with a sample less than or equal to it, so the denominator
  \<open>f[v1] - f[v0]\<close> of the interpolation factor is not zero. Samples are real numbers here.
\<close>

theorem interpolated_edges_cross:
  assumes "2 \<le> dim0 input" "2 \<le> dim1 input" "0 \<le> cell_id"
    and "classify_cell input isoval d numVertsTable cell_id = Inr (cubeindex, numVertices)"
    and "0 \<le> v" "v < numVertices"
  shows "\<exists>x y z v0 v1.
           cell_xyz (dim0 input) (dim1 input)
             (mul32 (sub32 (dim0 input) 1) (sub32 (dim1 input) 1)) cell_id = Inr (x, y, z)
         \<and> edge_corners triTable cubeindex v = Inr (v0, v1)
         \<and> 0 \<le> v0 \<and> v0 < 8 \<and> 0 \<le> v1 \<and> v1 < 8
         \<and> (let f = map (point_data input) (corner_indices (dim0 input) (dim1 input) x y z) in
              ((f ! nat v0 > isoval \<and> f ! nat v1 \<le> isoval)
                \<or> (f ! nat v0 \<le> isoval \<and> f ! nat v1 > isoval))
              \<and> f ! nat v1 - f ! nat v0 \<noteq> 0
              \<and> interp_factor isoval f v0 v1
                  = Inr ((isoval - f ! nat v0) / (f ! nat v1 - f ! nat v0)))"
proof -
  obtain x y z where
    xyz: "cell_xyz (dim0 input) (dim1 input)
            (mul32 (sub32 (dim0 input) 1) (sub32 (dim1 input) 1)) cell_id = Inr (x, y, z)"
    and c: "cubeindex = cubeindex_of input isoval
              (add32 (add32 x (mul32 y (dim0 input)))
                 (mul32 z (mul32 (dim0 input) (dim1 input))))"
    and n: "numVertices = numVertsTable ! nat cubeindex"
    using classify_cell_Inr[OF assms(4)] by blast
  define f where "f = map (point_data input) (corner_indices (dim0 input) (dim1 input) x y z)"
  have cr: "0 \<le> cubeindex" "cubeindex < 256"
    unfolding c by (rule cubeindex_of_range)+
  obtain v0 v1 where e: "edge_corners triTable cubeindex v = Inr (v0, v1)"
    and r: "0 \<le> v0" "v0 < 8" "0 \<le> v1" "v1 < 8"
    and b: "bit cubeindex (nat v0) \<noteq> bit cubeindex (nat v1)"
    using edge_corners_valid[OF cr assms(5)] assms(6) n by blast
  have lf: "length f = 8"
    by (simp add: f_def corner_indices_def Let_def)
  have s: "(f ! nat v0 > isoval) \<noteq> (f ! nat v1 > isoval)"
    using b r unfolding c f_def by (simp add: corner_bits)
  then have opp: "(f ! nat v0 > isoval \<and> f ! nat v1 \<le> isoval)
                \<or> (f ! nat v0 \<le> isoval \<and> f ! nat v1 > isoval)"
    by auto
  then have nz: "f ! nat v1 - f ! nat v0 \<noteq> 0"
    by auto
  have t: "interp_factor isoval f v0 v1 = Inr ((isoval - f ! nat v0) / (f ! nat v1 - f ! nat v0))"
    using r lf by (simp add: interp_factor_def rd_def)
  show ?thesis
    using xyz e r opp nz t unfolding f_def Let_def by blast
qed

lemma numVertsTable_240: "numVertsTable ! 240 = 6"
  by (simp add: numVertsTable_def numVerticesTable_array_240)

lemma cell_xyz_single_cell: "cell_xyz 2 2 (mul32 (sub32 2 1) (sub32 2 1)) 0 = Inr (0, 0, 0)"
  by (simp add: cell_xyz_def c_div_def c_mod_def int32_def sub32_def mul32_def)

lemma corner_indices_single_cell: "corner_indices 2 2 0 0 0 = [0, 1, 3, 2, 4, 5, 7, 6]"
  by (simp add: corner_indices_def int32_def add32_def mul32_def)

lemma classify_single_cell_at:
  "classify_cell single_cell_field isoval d numVertsTable 0
     = (let c = b2i (0 > isoval) + b2i (0 > isoval) * 2 + b2i (0 > isoval) * 4
              + b2i (0 > isoval) * 8 + b2i (1 > isoval) * 16 + b2i (1 > isoval) * 32
              + b2i (1 > isoval) * 64 + b2i (1 > isoval) * 128
        in and_then (rd numVertsTable c) (\<lambda>n. Inr (c, n)))"
proof -
  have d: "dim0 single_cell_field = 2" "dim1 single_cell_field = 2"
    by (simp_all add: single_cell_field_def)
  have i: "mul32 2 2 = 4" "mul32 0 2 = 0" "mul32 0 4 = 0" "add32 0 0 = 0"
    "add32 0 1 = 1" "add32 1 2 = 3" "add32 0 2 = 2"
    "add32 0 4 = 4" "add32 1 4 = 5" "add32 3 4 = 7" "add32 2 4 = 6"
    by (simp_all add: int32_def add32_def mul32_def)
  have f: "point_data single_cell_field 0 = 0" "point_data single_cell_field 1 = 0"
    "point_data single_cell_field 3 = 0" "point_data single_cell_field 2 = 0"
    "point_data single_cell_field 4 = 1" "point_data single_cell_field 5 = 1"
    "point_data single_cell_field 7 = 1" "point_data single_cell_field 6 = 1"
    by (simp_all add: single_cell_field_def)
  show ?thesis
    unfolding classify_cell_def Let_def d cell_xyz_single_cell and_then_simps prod.case i f ..
qed

lemma classify_single_cell:
  "classify_cell single_cell_field (1/2) d numVertsTable 0 = Inr (240, 6)"
  unfolding classify_single_cell_at by (simp add: b2i_def rd_def numVertsTable_240)

theorem interpolated_edges_cross_witness:
  "2 \<le> dim0 single_cell_field \<and> 2 \<le> dim1 single_cell_field \<and> (0::int) \<le> 0
   \<and> classify_cell single_cell_field (1/2) True numVertsTable 0 = Inr (240, 6)
   \<and> (0::int) \<le> 0 \<and> (0::int) < 6
   \<and> (\<exists>x y z v0 v1.
           cell_xyz 2 2 1 0 = Inr (x, y, z)
         \<and> edge_corners triTable 240 0 = Inr (v0, v1)
         \<and> 0 \<le> v0 \<and> v0 < 8 \<and> 0 \<le> v1 \<and> v1 < 8
         \<and> (let f = map (point_data single_cell_field) (corner_indices 2 2 x y z) in
              ((f ! nat v0 > 1/2 \<and> f ! nat v1 \<le> 1/2)
                \<or> (f ! nat v0 \<le> 1/2 \<and> f ! nat v1 > 1/2))
              \<and> f ! nat v1 - f ! nat v0 \<noteq> 0
              \<and> interp_factor (1/2) f v0 v1
                  = Inr ((1/2 - f ! nat v0) / (f ! nat v1 - f ! nat v0))))"
proof -
  have d: "2 \<le> dim0 single_cell_field" "2 \<le> dim1 single_cell_field"
    "dim0 single_cell_field = 2" "dim1 single_cell_field = 2"
    by (simp_all add: single_cell_field_def)
  show ?thesis
    using interpolated_edges_cross[OF d(1,2) _ classify_single_cell[of True], of 0]
    by (simp add: d classify_single_cell int32_def sub32_def mul32_def)
qed

lemma edge_corners_240:
  "edge_corners triTable 240 0 = Inr (1, 5)"
  "edge_corners triTable 240 1 = Inr (2, 6)"
  "edge_corners triTable 240 2 = Inr (0, 4)"
  "edge_corners triTable 240 3 = Inr (2, 6)"
  "edge_corners triTable 240 4 = Inr (3, 7)"
  "edge_corners triTable 240 5 = Inr (0, 4)"
  using edge_corners_row[of 240 0] edge_corners_row[of 240 1] edge_corners_row[of 240 2]
    edge_corners_row[of 240 3] edge_corners_row[of 240 4] edge_corners_row[of 240 5]
  by (simp_all add: triTable_array_240 verticesForEdge_def)

section \<open>The single cell scenario\<close>

text \<open>
  C2, as the claim states it, fails on the vertex count: the scenario has the case index
  240, and the vertex count table gives 6 for it, not 12.
\<close>

theorem single_cell_scenario_count_not_12:
  "classify_cell single_cell_field (1/2) True numVertsTable 0 \<noteq> Inr (240, 12)"
  by (simp add: classify_single_cell)

text \<open>
  C2, amended. For the single cell of a \<open>2 \<times> 2 \<times> 2\<close> grid whose bottom face corners
  have the sample 0 and whose top face corners have the sample 1, with isovalue 0.5:
  \<open>classify_cell\<close> yields the case index 240 and the vertex count 6 (two triangles), and
  the interpolation factor of each of the six output vertices is 0.5.
\<close>

theorem single_cell_scenario:
  "classify_cell single_cell_field (1/2) True numVertsTable 0 = Inr (240, 6)
   \<and> cell_xyz (dim0 single_cell_field) (dim1 single_cell_field) 1 0 = Inr (0, 0, 0)
   \<and> map (\<lambda>v. and_then (edge_corners triTable 240 v)
                (\<lambda>(v0, v1). interp_factor (1/2)
                   (map (point_data single_cell_field) (corner_indices 2 2 0 0 0)) v0 v1))
        [0, 1, 2, 3, 4, 5]
      = [Inr (1/2), Inr (1/2), Inr (1/2), Inr (1/2), Inr (1/2), Inr (1/2)]"
proof (intro conjI)
  show "classify_cell single_cell_field (1/2) True numVertsTable 0 = Inr (240, 6)"
    by (rule classify_single_cell)
  show "cell_xyz (dim0 single_cell_field) (dim1 single_cell_field) 1 0 = Inr (0, 0, 0)"
    by (simp add: single_cell_field_def cell_xyz_def c_div_def c_mod_def int32_def sub32_def)
  show "map (\<lambda>v. and_then (edge_corners triTable 240 v)
                (\<lambda>(v0, v1). interp_factor (1/2)
                   (map (point_data single_cell_field) (corner_indices 2 2 0 0 0)) v0 v1))
        [0, 1, 2, 3, 4, 5]
      = [Inr (1/2), Inr (1/2), Inr (1/2), Inr (1/2), Inr (1/2), Inr (1/2)]"
    by (simp add: edge_corners_240 interp_factor_def rd_def corner_indices_single_cell
        single_cell_field_def)
qed

section \<open>Compaction: the scan of the valid cells and its inversion\<close>

lemma upt_0_Suc: "[0..<Suc n] = 0 # map Suc [0..<n]"
  by (metis map_Suc_upt upt_conv_Cons zero_less_Suc)

lemma positions_Cons:
  "[i \<leftarrow> [0..<length (x # xs)]. (x # xs) ! i \<noteq> (0::int)]
     = (if x \<noteq> 0 then [0] else []) @ map Suc [i \<leftarrow> [0..<length xs]. xs ! i \<noteq> 0]"
proof -
  have "[i \<leftarrow> [0..<length (x # xs)]. (x # xs) ! i \<noteq> 0]
          = [i \<leftarrow> 0 # map Suc [0..<length xs]. (x # xs) ! i \<noteq> 0]"
    unfolding length_Cons upt_0_Suc ..
  also have "\<dots> = (if x \<noteq> 0 then [0] else []) @ map Suc [i \<leftarrow> [0..<length xs]. xs ! i \<noteq> 0]"
    by (simp add: filter_map comp_def)
  finally show ?thesis .
qed

lemma ranks_Suc:
  "map (\<lambda>k. acc + int k) [0..<Suc n] = acc # map (\<lambda>k. (acc + 1) + int k) [0..<n]"
  unfolding upt_0_Suc by (simp add: comp_def del: upt_Suc)

lemma sum_list_ind_nonneg: "\<forall>x \<in> set ind. x = 0 \<or> x = (1::int) \<Longrightarrow> 0 \<le> sum_list ind"
  by (induction ind) auto

lemma upper_bound_skip:
  "map (upper_bound (a # rest)) (map (\<lambda>k. a + int k) [0..<n])
     = map (\<lambda>r. 1 + r) (map (upper_bound rest) (map (\<lambda>k. a + int k) [0..<n]))"
  by (simp add: comp_def del: upt_Suc)

lemma scan_search:
  assumes "\<forall>x \<in> set ind. x = 0 \<or> x = 1"
  shows "map (upper_bound (inclusive_scan_from acc ind))
           (map (\<lambda>k. acc + int k) [0..<nat (sum_list ind)])
         = map int [i \<leftarrow> [0..<length ind]. ind ! i \<noteq> 0]"
  using assms
proof (induction ind arbitrary: acc)
  case Nil
  then show ?case by simp
next
  case (Cons x xs)
  have xs: "\<forall>x \<in> set xs. x = 0 \<or> x = 1" using Cons.prems by simp
  have nn: "0 \<le> sum_list xs" by (rule sum_list_ind_nonneg[OF xs])
  show ?case
  proof (cases "x = 0")
    case True
    have s: "inclusive_scan_from acc (x # xs) = acc # inclusive_scan_from acc xs"
      and n: "sum_list (x # xs) = sum_list xs"
      using True by simp_all
    have "map (upper_bound (inclusive_scan_from acc (x # xs)))
            (map (\<lambda>k. acc + int k) [0..<nat (sum_list (x # xs))])
          = map (\<lambda>r. 1 + r) (map (upper_bound (inclusive_scan_from acc xs))
              (map (\<lambda>k. acc + int k) [0..<nat (sum_list xs)]))"
      unfolding s n by (rule upper_bound_skip)
    also have "\<dots> = map (\<lambda>r. 1 + r) (map int [i \<leftarrow> [0..<length xs]. xs ! i \<noteq> 0])"
      by (simp only: Cons.IH[OF xs])
    also have "\<dots> = map int [i \<leftarrow> [0..<length (x # xs)]. (x # xs) ! i \<noteq> 0]"
      unfolding positions_Cons using True by (simp add: comp_def del: upt_Suc)
    finally show ?thesis .
  next
    case False
    then have x1: "x = 1" using Cons.prems by simp
    have n: "nat (sum_list (x # xs)) = Suc (nat (sum_list xs))"
      using x1 nn by simp
    have s: "inclusive_scan_from acc (x # xs) = (acc + 1) # inclusive_scan_from (acc + 1) xs"
      using x1 by simp
    have "map (upper_bound (inclusive_scan_from acc (x # xs)))
            (map (\<lambda>k. acc + int k) [0..<nat (sum_list (x # xs))])
          = 0 # map (upper_bound ((acc + 1) # inclusive_scan_from (acc + 1) xs))
                   (map (\<lambda>k. (acc + 1) + int k) [0..<nat (sum_list xs)])"
      unfolding n ranks_Suc s by simp
    also have "\<dots> = 0 # map (\<lambda>r. 1 + r) (map (upper_bound (inclusive_scan_from (acc + 1) xs))
              (map (\<lambda>k. (acc + 1) + int k) [0..<nat (sum_list xs)]))"
      unfolding upper_bound_skip ..
    also have "\<dots> = 0 # map (\<lambda>r. 1 + r) (map int [i \<leftarrow> [0..<length xs]. xs ! i \<noteq> 0])"
      by (simp only: Cons.IH[OF xs])
    also have "\<dots> = map int [i \<leftarrow> [0..<length (x # xs)]. (x # xs) ! i \<noteq> 0]"
      unfolding positions_Cons using x1 by (simp add: comp_def del: upt_Suc)
    finally show ?thesis .
  qed
qed

lemma length_inclusive_scan_from [simp]: "length (inclusive_scan_from acc xs) = length xs"
  by (induction xs arbitrary: acc) simp_all

lemma inclusive_scan_from_Nil [simp]: "inclusive_scan_from acc xs = [] \<longleftrightarrow> xs = []"
  by (cases xs) simp_all

lemma last_inclusive_scan_from:
  "xs \<noteq> [] \<Longrightarrow> last (inclusive_scan_from acc xs) = acc + sum_list xs"
  by (induction xs arbitrary: acc) (auto simp: neq_Nil_conv)

lemma upper_bound_takeWhile:
  "upper_bound xs r = int (length (takeWhile (\<lambda>x. \<not> r < x) xs))"
  by (induction xs) simp_all

lemma length_takeWhile_Least:
  assumes "\<exists>i < length xs. P (xs ! i)"
  shows "length (takeWhile (\<lambda>x. \<not> P x) xs) = (LEAST i. i < length xs \<and> P (xs ! i))"
proof -
  define k where "k = length (takeWhile (\<lambda>x. \<not> P x) xs)"
  have lt: "k < length xs"
  proof (rule ccontr)
    assume "\<not> k < length xs"
    then have "k = length xs"
      using length_takeWhile_le[of "\<lambda>x. \<not> P x" xs] unfolding k_def by simp
    then have "takeWhile (\<lambda>x. \<not> P x) xs = xs"
      using takeWhile_eq_take[of "\<lambda>x. \<not> P x" xs] unfolding k_def by simp
    then have "\<forall>x \<in> set xs. \<not> P x"
      by simp
    then show False
      using assms nth_mem by blast
  qed
  have p: "P (xs ! k)"
    using nth_length_takeWhile[of "\<lambda>x. \<not> P x" xs] lt unfolding k_def by simp
  have below: "\<not> P (xs ! j)" if "j < k" for j
  proof -
    have "takeWhile (\<lambda>x. \<not> P x) xs ! j \<in> set (takeWhile (\<lambda>x. \<not> P x) xs)"
      using that unfolding k_def by (rule nth_mem)
    then have "\<not> P (takeWhile (\<lambda>x. \<not> P x) xs ! j)"
      by (rule set_takeWhileD[THEN conjunct2])
    then show ?thesis
      using takeWhile_nth[of j "\<lambda>x. \<not> P x" xs] that unfolding k_def by simp
  qed
  have "(LEAST i. i < length xs \<and> P (xs ! i)) = k"
  proof (rule Least_equality)
    show "k < length xs \<and> P (xs ! k)" using lt p by simp
  next
    fix y assume "y < length xs \<and> P (xs ! y)"
    then show "k \<le> y" using below[of y] by (cases "y < k") simp_all
  qed
  then show ?thesis unfolding k_def by simp
qed

lemma valid_indicator:
  "\<forall>x \<in> set (map (\<lambda>x. b2i (is_valid_cell x)) nv). x = 0 \<or> x = 1"
  by (auto simp: b2i_def)

lemma scan_search_compacts:
  assumes "back_of (transform_inclusive_scan is_valid_cell nv) = Inr num_valid_cells"
  shows "find_valid_cells (transform_inclusive_scan is_valid_cell nv) num_valid_cells
           = map int [i \<leftarrow> [0..<length nv]. nv ! i \<noteq> 0]
       \<and> int (length (find_valid_cells (transform_inclusive_scan is_valid_cell nv)
                        num_valid_cells)) = num_valid_cells
       \<and> (\<forall>r. r < nat num_valid_cells \<longrightarrow>
            find_valid_cells (transform_inclusive_scan is_valid_cell nv) num_valid_cells ! r
              = int (LEAST i. i < length nv
                        \<and> int r < transform_inclusive_scan is_valid_cell nv ! i))"
proof -
  define ind where "ind = map (\<lambda>x. b2i (is_valid_cell x)) nv"
  define enum where "enum = transform_inclusive_scan is_valid_cell nv"
  have enum: "enum = inclusive_scan_from 0 ind"
    by (simp add: enum_def ind_def transform_inclusive_scan_def)
  have ind01: "\<forall>x \<in> set ind. x = 0 \<or> x = 1"
    unfolding ind_def by (rule valid_indicator)
  have ne: "ind \<noteq> []" and n: "num_valid_cells = sum_list ind"
    using assms last_inclusive_scan_from[of ind 0]
    unfolding enum_def[symmetric] enum back_of_def
    by (auto split: if_splits)
  have nn: "0 \<le> num_valid_cells"
    unfolding n by (rule sum_list_ind_nonneg[OF ind01])
  have len: "length enum = length nv"
    by (simp add: enum ind_def)
  have "find_valid_cells enum num_valid_cells
          = map int [i \<leftarrow> [0..<length ind]. ind ! i \<noteq> 0]"
    using scan_search[OF ind01, of 0]
    by (simp add: find_valid_cells_def CountingIterator_def enum n)
  also have "[i \<leftarrow> [0..<length ind]. ind ! i \<noteq> 0] = [i \<leftarrow> [0..<length nv]. nv ! i \<noteq> 0]"
    unfolding ind_def by (rule filter_cong) (simp_all add: b2i_def is_valid_cell_def)
  finally have a: "find_valid_cells enum num_valid_cells
                     = map int [i \<leftarrow> [0..<length nv]. nv ! i \<noteq> 0]" .
  have b: "int (length (find_valid_cells enum num_valid_cells)) = num_valid_cells"
    using nn by (simp add: find_valid_cells_def CountingIterator_def)
  have c: "find_valid_cells enum num_valid_cells ! r
             = int (LEAST i. i < length nv \<and> int r < enum ! i)"
    if r: "r < nat num_valid_cells" for r
  proof -
    have last: "enum ! (length enum - 1) = num_valid_cells"
      using ne last_inclusive_scan_from[OF ne, of 0] n
      by (simp add: enum last_conv_nth)
    have "length enum - 1 < length enum \<and> int r < enum ! (length enum - 1)"
      using ne r last by (simp add: enum)
    then have ex: "\<exists>i < length enum. int r < enum ! i"
      by blast
    have "find_valid_cells enum num_valid_cells ! r = upper_bound enum (int r)"
      using r by (simp add: find_valid_cells_def CountingIterator_def)
    also have "\<dots> = int (LEAST i. i < length enum \<and> int r < enum ! i)"
      unfolding upper_bound_takeWhile
      using length_takeWhile_Least[of enum "\<lambda>x. int r < x", OF ex] by simp
    finally show ?thesis unfolding len .
  qed
  show ?thesis
    using a b c unfolding enum_def by blast
qed



section \<open>The passes of the extraction\<close>

lemma transform_Inr:
  "transform f xs = Inr ys \<Longrightarrow> list_all2 (\<lambda>x y. f x = Inr y) xs ys"
proof (induction xs arbitrary: ys)
  case Nil
  then show ?case by simp
next
  case (Cons x xs)
  then show ?case
    by (auto simp: and_then_eq_Inr)
qed





lemma classify_all_cells_Inr:
  assumes "classify_all_cells input s = Inr s1"
  shows "\<exists>cs. list_all2 (\<lambda>x y. classify_cell input (isovalue s) (discardMinVals s) numVertsTable x
                              = Inr y) (CountingIterator (NCells input)) cs
            \<and> s1 = s\<lparr>case_index := map fst cs, num_vertices := map snd cs\<rparr>
            \<and> 0 \<le> NCells input"
  using assms unfolding classify_all_cells_def
  by (auto simp: and_then_eq_Inr split: if_splits dest: transform_Inr)


lemma length_prefix_sums [simp]: "length (prefix_sums acc xs) = length xs"
  by (induction xs arbitrary: acc) simp_all

lemma prefix_sums_Nil [simp]: "prefix_sums acc xs = [] \<longleftrightarrow> xs = []"
  by (cases xs) simp_all





lemma length_exclusive_scan_from [simp]: "length (exclusive_scan_from acc xs) = length xs"
  by (induction xs arbitrary: acc) simp_all






lemma enumerate_output_vertices_fields:
  assumes "enumerate_output_vertices n s = Inr s5"
  shows "num_vertices s5 = num_vertices s \<and> case_index s5 = case_index s
       \<and> vertices s5 = vertices s \<and> normals s5 = normals s"
  using assms unfolding enumerate_output_vertices_def Let_def
  by (auto simp: and_then_eq_Inr)

lemma generate_geometry_fields:
  assumes "generate_geometry input s = Inr s'"
  shows "case_index s' = case_index s \<and> num_vertices s' = num_vertices s
       \<and> valid_cell_enum s' = valid_cell_enum s \<and> valid_cell_indices s' = valid_cell_indices s
       \<and> output_vertices_enum s' = output_vertices_enum s
       \<and> num_total_vertices s' = num_total_vertices s"
  using assms unfolding generate_geometry_def
  by (auto simp: and_then_eq_Inr split: if_splits)

lemma operator_call_Inr:
  assumes "operator_call input s = Inr s'"
  shows "\<exists>s1 n. classify_all_cells input s = Inr s1
          \<and> back_of (valid_cell_enum (enumerate_valid_cells s1)) = Inr n
          \<and> (if n = 0
              then s' = (enumerate_valid_cells s1)\<lparr>vertices := [], normals := [], scalars := []\<rparr>
              else \<exists>s5. enumerate_output_vertices n (enumerate_valid_cells s1) = Inr s5
                      \<and> generate_geometry input s5 = Inr s')"
  using assms unfolding operator_call_def Let_def
  by (auto simp: and_then_eq_Inr split: if_splits)



section \<open>The extraction of the single cell scenario\<close>

lemma classify_all_single_cell:
  "classify_all_cells single_cell_field (new_marching_cube (1/2) u)
     = Inr ((new_marching_cube (1/2) u)\<lparr>case_index := [240], num_vertices := [6]\<rparr>)"
proof -
  have n: "NCells single_cell_field = 1" by (simp add: single_cell_field_def)
  show ?thesis
    unfolding classify_all_cells_def n
    by (simp add: CountingIterator_def classify_single_cell new_marching_cube_def)
qed

lemma geometry_single_cell:
  "isosurface_functor single_cell_field (1/2) triTable (0, 0, 240, 6)
     (replicate 6 (0, 0, 0, 0), replicate 6 (0, 0, 0))
   = Inr ([(1, 0, 1/2, 1), (1, 1, 1/2, 1), (0, 0, 1/2, 1),
           (1, 1, 1/2, 1), (0, 1, 1/2, 1), (0, 0, 1/2, 1)],
          [(0, 0, 1), (0, 0, 1), (0, 0, 1), (0, 0, 1), (0, 0, 1), (0, 0, 1)])"
proof -
  have d: "dim0 single_cell_field = 2" "dim1 single_cell_field = 2"
    by (simp_all add: single_cell_field_def)
  show ?thesis
    unfolding isosurface_functor_def prod.case Let_def d cell_xyz_single_cell and_then_simps
      corner_indices_single_cell
    by (simp add: single_cell_field_def
        interp_loop.simps normal_loop.simps interp_vertex_def edge_corners_240
        interp_factor_def rd_def store_def lerp_def make_float4_def make_float3_def minus4_def
        cross_def normalize_def numeral_eq_Suc Let_def)
qed

lemma operator_call_single_cell:
  "operator_call single_cell_field (new_marching_cube (1/2) u) = Inr single_cell_surface"
  unfolding operator_call_def classify_all_single_cell
  by (simp add: enumerate_valid_cells_def transform_inclusive_scan_def is_valid_cell_def b2i_def
      back_of_def enumerate_output_vertices_def find_valid_cells_def CountingIterator_def
      make_permutation_iterator_def rd_def exclusive_scan_def generate_geometry_def resize_def
      new_marching_cube_def geometry_single_cell[simplified] single_cell_surface_def Let_def
      int32_def add32_def uint32_def)

section \<open>Extractions without a valid cell\<close>

text \<open>
  The early return in general: an extraction that returns without a valid cell has
  emptied the vertices and the normals and has left \<open>num_total_vertices\<close> as it was
  before the call.
\<close>

lemma operator_call_no_valid_cell:
  assumes run: "operator_call input s = Inr s'"
    and none: "\<forall>n \<in> set (num_vertices s'). n = 0"
  shows "vertices s' = [] \<and> normals s' = []
       \<and> num_total_vertices s' = num_total_vertices s"
proof -
  obtain s1 n where s1: "classify_all_cells input s = Inr s1"
    and bk: "back_of (valid_cell_enum (enumerate_valid_cells s1)) = Inr n"
    and rest: "if n = 0
              then s' = (enumerate_valid_cells s1)\<lparr>vertices := [], normals := [], scalars := []\<rparr>
              else \<exists>s5. enumerate_output_vertices n (enumerate_valid_cells s1) = Inr s5
                      \<and> generate_geometry input s5 = Inr s'"
    using operator_call_Inr[OF run] by blast
  define s2 where "s2 = enumerate_valid_cells s1"
  have enum: "valid_cell_enum s2 = transform_inclusive_scan is_valid_cell (num_vertices s2)"
    and nv2: "num_vertices s2 = num_vertices s1"
    by (simp_all add: s2_def enumerate_valid_cells_def)
  have nv': "num_vertices s' = num_vertices s1"
  proof (cases "n = 0")
    case True
    then show ?thesis using rest by (simp add: enumerate_valid_cells_def)
  next
    case False
    then obtain s5 where s5: "enumerate_output_vertices n s2 = Inr s5"
      and geo: "generate_geometry input s5 = Inr s'"
      using rest unfolding s2_def by auto
    have "num_vertices s5 = num_vertices s1"
      using enumerate_output_vertices_fields[OF s5] by (simp add: nv2)
    then show ?thesis
      using generate_geometry_fields[OF geo] by simp
  qed
  have "[i \<leftarrow> [0..<length (num_vertices s1)]. num_vertices s1 ! i \<noteq> 0] = []"
    using none unfolding nv' by (auto simp: filter_empty_conv)
  then have "n = 0"
    using scan_search_compacts[OF bk[folded s2_def, unfolded enum]] unfolding nv2 by auto
  then have "s' = (enumerate_valid_cells s1)\<lparr>vertices := [], normals := [], scalars := []\<rparr>"
    using rest by simp
  moreover have "num_total_vertices s1 = num_total_vertices s"
    using classify_all_cells_Inr[OF s1] by auto
  ultimately show ?thesis
    by (simp add: enumerate_valid_cells_def)
qed

lemma numVertsTable_255: "numVertsTable ! 255 = 0"
  by (simp add: numVertsTable_def numVerticesTable_array_def)

lemma classify_single_cell_above: "classify_cell single_cell_field 2 d numVertsTable 0 = Inr (0, 0)"
  unfolding classify_single_cell_at by (simp add: b2i_def rd_def numVertsTable_0)

lemma classify_single_cell_below:
  "classify_cell single_cell_field (- 1) d numVertsTable 0 = Inr (255, 0)"
  unfolding classify_single_cell_at by (simp add: b2i_def rd_def numVertsTable_255)

lemma NCells_single_cell: "NCells single_cell_field = 1"
  by (simp add: single_cell_field_def)

text \<open>
  C3 fails on the code. On \<open>single_cell_field\<close>, whose samples are 0 and 1, an extraction at
  the isovalue 0.5 leaves \<open>num_total_vertices = 6\<close>. A second extraction at the isovalue 2
  (above every sample), or at the isovalue \<open>-1\<close> (below every sample), finds no valid cell
  and returns early: it empties the vertices and the normals and leaves
  \<open>num_total_vertices\<close> at 6. On a new surface the field keeps the indeterminate value the
  constructor left (here 7).
\<close>

theorem no_valid_cell_keeps_num_total_vertices:
  "operator_call single_cell_field (new_marching_cube (1/2) 7) = Inr single_cell_surface
   \<and> map_sum id (\<lambda>s'. (vertices s', normals s', num_total_vertices s'))
        (operator_call single_cell_field (set_isovalue 2 single_cell_surface)) = Inr ([], [], 6)
   \<and> map_sum id (\<lambda>s'. (vertices s', normals s', num_total_vertices s'))
        (operator_call single_cell_field (set_isovalue (- 1) single_cell_surface)) = Inr ([], [], 6)
   \<and> map_sum id (\<lambda>s'. (vertices s', normals s', num_total_vertices s'))
        (operator_call single_cell_field (new_marching_cube 2 7)) = Inr ([], [], 7)"
proof (intro conjI)
  show "operator_call single_cell_field (new_marching_cube (1/2) 7) = Inr single_cell_surface"
    by (rule operator_call_single_cell)
  show "map_sum id (\<lambda>s'. (vertices s', normals s', num_total_vertices s'))
        (operator_call single_cell_field (set_isovalue 2 single_cell_surface)) = Inr ([], [], 6)"
    unfolding operator_call_def classify_all_cells_def NCells_single_cell
    by (simp add: CountingIterator_def set_isovalue_def classify_single_cell_above
        enumerate_valid_cells_def transform_inclusive_scan_def is_valid_cell_def b2i_def
        back_of_def single_cell_surface_def)
  show "map_sum id (\<lambda>s'. (vertices s', normals s', num_total_vertices s'))
        (operator_call single_cell_field (set_isovalue (- 1) single_cell_surface)) = Inr ([], [], 6)"
    unfolding operator_call_def classify_all_cells_def NCells_single_cell
    by (simp add: CountingIterator_def set_isovalue_def classify_single_cell_below
        enumerate_valid_cells_def transform_inclusive_scan_def is_valid_cell_def b2i_def
        back_of_def single_cell_surface_def)
  show "map_sum id (\<lambda>s'. (vertices s', normals s', num_total_vertices s'))
        (operator_call single_cell_field (new_marching_cube 2 7)) = Inr ([], [], 7)"
    unfolding operator_call_def classify_all_cells_def NCells_single_cell
    by (simp add: CountingIterator_def new_marching_cube_def classify_single_cell_above
        enumerate_valid_cells_def transform_inclusive_scan_def is_valid_cell_def b2i_def
        back_of_def)
qed

section \<open>Malformed dimensions\<close>




section \<open>The geometry pass\<close>


lemma rd_in_range:
  "0 \<le> i \<Longrightarrow> i < int (length xs) \<Longrightarrow> rd xs i = Inr (xs ! nat i)"
  by (simp add: rd_def)










lemma length_resize: "resize xs n d = Inr ys \<Longrightarrow> int (length ys) = n"
  by (auto simp: resize_def split: if_splits)


lemma zip4_nth:
  assumes "length bs = length as" "length cs = length as" "length ds = length as"
    and "k < length as"
  shows "zip4 as bs cs ds ! k = (as ! k, bs ! k, cs ! k, ds ! k)"
    and "length (zip4 as bs cs ds) = length as"
  using assms by simp_all



section \<open>The extraction of a well-formed grid\<close>




section \<open>The extraction of a grid of three cells\<close>
















section \<open>The output offsets\<close>



section \<open>The ranges of the geometry pass\<close>



end
